theory Spec2Isabelle
  imports Main "HOL-Library.AList"
begin

section \<open>Parcel collection server: the collection tracker\<close>

text \<open>
  The tracker of a collection session keeps its pending acknowledgements in a plain
  JavaScript object created by the literal \<^verbatim>\<open>{}\<close>. Reading \<^verbatim>\<open>obj[key]\<close> on such an object
  first looks at the object's own properties and then at the properties every object inherits
  from \<^verbatim>\<open>Object.prototype\<close>; \<^verbatim>\<open>delete obj[key]\<close> and \<^verbatim>\<open>Object.keys(obj)\<close> only see own
  properties. The own properties are an association list here; a value read from the object is
  a \<open>js_value\<close>.
\<close>

datatype js_value = Undefined | Str string | Inherited string

text \<open>The names \<^verbatim>\<open>Object.prototype\<close> defines; each holds a function or an object.\<close>

definition objectPrototypeProperties :: "string list" where
  "objectPrototypeProperties =
     [''constructor'', ''__defineGetter__'', ''__defineSetter__'', ''hasOwnProperty'',
      ''__lookupGetter__'', ''__lookupSetter__'', ''isPrototypeOf'', ''propertyIsEnumerable'',
      ''toString'', ''valueOf'', ''__proto__'', ''toLocaleString'']"

text \<open>JavaScript truthiness, as used by \<^verbatim>\<open>if (parcelKey)\<close> and \<^verbatim>\<open>if (!parcelKey)\<close>.\<close>

fun truthy :: "js_value \<Rightarrow> bool" where
  "truthy Undefined = False"
| "truthy (Str s) = (s \<noteq> [])"
| "truthy (Inherited n) = True"

definition getProperty :: "(string \<times> string) list \<Rightarrow> string \<Rightarrow> js_value" where
  "getProperty obj k =
     (case map_of obj k of
        Some v \<Rightarrow> Str v
      | None \<Rightarrow> if k \<in> set objectPrototypeProperties then Inherited k else Undefined)"

record CollectionTracker =
  wereAllParcelsDelivered :: bool
  pendingParcelKeyByDeliveryId :: "(string \<times> string) list"

definition newCollectionTracker :: CollectionTracker where
  "newCollectionTracker =
     \<lparr>wereAllParcelsDelivered = False, pendingParcelKeyByDeliveryId = []\<rparr>"

definition isCollectionComplete :: "CollectionTracker \<Rightarrow> bool" where
  "isCollectionComplete t =
     (wereAllParcelsDelivered t \<and> length (map fst (pendingParcelKeyByDeliveryId t)) = 0)"

definition markAllParcelsDelivered :: "CollectionTracker \<Rightarrow> CollectionTracker" where
  "markAllParcelsDelivered t = t\<lparr>wereAllParcelsDelivered := True\<rparr>"

text \<open>
  \<^verbatim>\<open>this.pendingParcelKeyByDeliveryId[deliveryId] = parcelKey\<close>. Assigning a string to
  \<^verbatim>\<open>__proto__\<close> runs the inherited setter, which ignores a value that is not an object, so no
  own property appears.
\<close>

definition addPendingACK :: "string \<Rightarrow> string \<Rightarrow> CollectionTracker \<Rightarrow> CollectionTracker" where
  "addPendingACK deliveryId parcelKey t =
     (if deliveryId = ''__proto__'' then t
      else t\<lparr>pendingParcelKeyByDeliveryId :=
                 AList.update deliveryId parcelKey (pendingParcelKeyByDeliveryId t)\<rparr>)"

definition popPendingParcelKey :: "string \<Rightarrow> CollectionTracker \<Rightarrow> js_value \<times> CollectionTracker" where
  "popPendingParcelKey deliveryId t =
     (let parcelKey = getProperty (pendingParcelKeyByDeliveryId t) deliveryId
      in if truthy parcelKey
         then (parcelKey,
               t\<lparr>pendingParcelKeyByDeliveryId :=
                    AList.delete deliveryId (pendingParcelKeyByDeliveryId t)\<rparr>)
         else (parcelKey, t))"

section \<open>Parcel collection server: one session after the handshake\<close>

text \<open>
  Modelled from the spec: the enumeration \<^verbatim>\<open>WebSocketCode\<close> of close codes lives in the
  \<^verbatim>\<open>websocket\<close> module, which is not among the sources; the spec gives 1000 for NORMAL and 1008
  for CANNOT_ACCEPT.
\<close>

datatype WebSocketCode = NORMAL | CANNOT_ACCEPT

fun closeCodeNumber :: "WebSocketCode \<Rightarrow> nat" where
  "closeCodeNumber NORMAL = 1000"
| "closeCodeNumber CANNOT_ACCEPT = 1008"

text \<open>What a session does to the socket and to the parcel store, in the order it does it.\<close>

datatype action =
    ChallengeSent string
  | ParcelDeliverySent string string
  | ParcelStoreDelete js_value
  | SocketClose WebSocketCode "string option"

text \<open>
  The delivery stream and the ACK processor are two cooperative tasks sharing the tracker; each
  runs until its next \<^verbatim>\<open>await\<close>. An event is one such resumption:
  \<^item> \<open>ParcelKeyYielded parcelKey parcelSerialized uuid\<close>: the store yields a key, with the
    result of \<^verbatim>\<open>parcelStore.retrieve\<close> for it (\<open>None\<close> for \<^verbatim>\<open>null\<close>) and the identifier
    \<^verbatim>\<open>uuid()\<close> returns;
  \<^item> \<open>ParcelKeysEnded\<close>: the store's key stream ends;
  \<^item> \<open>AckReceived ackMessage\<close>: the ACK processor reads the next inbound frame;
  \<^item> \<open>AckStreamEnded\<close>: the inbound stream ends;
  \<^item> \<open>DeleteResolved\<close>, \<open>DeleteRejected\<close>: the promise of \<^verbatim>\<open>parcelStore.delete\<close> the ACK
    processor awaits settles.
  An event that the task it belongs to cannot take in its current state leaves the session
  unchanged.
\<close>

datatype event =
    ParcelKeyYielded string "string option" string
  | ParcelKeysEnded
  | AckReceived string
  | AckStreamEnded
  | DeleteResolved
  | DeleteRejected

datatype delivery_task = Iterating | DeliveryReturned

datatype ack_task = AwaitingAck | AwaitingDelete | AckReturned

record session =
  tracker :: CollectionTracker
  deliveryStream :: delivery_task
  ackProcessor :: ack_task

definition newSession :: session where
  "newSession =
     \<lparr>tracker = newCollectionTracker, deliveryStream = Iterating, ackProcessor = AwaitingAck\<rparr>"

definition unknownDeliveryReason :: string where
  "unknownDeliveryReason = ''Unknown delivery id sent as acknowledgement''"

fun makeDeliveryStream :: "session \<Rightarrow> event \<Rightarrow> session \<times> action list" where
  "makeDeliveryStream s (ParcelKeyYielded parcelKey parcelSerialized uuid) =
     (case parcelSerialized of
        Some blob \<Rightarrow>
          (s\<lparr>tracker := addPendingACK uuid parcelKey (tracker s)\<rparr>,
           [ParcelDeliverySent uuid blob])
      | None \<Rightarrow> (s, []))"
| "makeDeliveryStream s ParcelKeysEnded =
     (let t = markAllParcelsDelivered (tracker s);
          s' = s\<lparr>tracker := t, deliveryStream := DeliveryReturned\<rparr>
      in if isCollectionComplete t then (s', [SocketClose NORMAL None]) else (s', []))"
| "makeDeliveryStream s _ = (s, [])"

fun makeACKProcessor :: "session \<Rightarrow> event \<Rightarrow> session \<times> action list" where
  "makeACKProcessor s (AckReceived ackMessage) =
     (if ackProcessor s = AwaitingAck then
        (let (parcelKey, t) = popPendingParcelKey ackMessage (tracker s)
         in if \<not> truthy parcelKey
            then (s\<lparr>tracker := t, ackProcessor := AckReturned\<rparr>,
                  [SocketClose CANNOT_ACCEPT (Some unknownDeliveryReason)])
            else (s\<lparr>tracker := t, ackProcessor := AwaitingDelete\<rparr>,
                  [ParcelStoreDelete parcelKey]))
      else (s, []))"
| "makeACKProcessor s DeleteResolved =
     (if ackProcessor s = AwaitingDelete then
        (if isCollectionComplete (tracker s)
         then (s\<lparr>ackProcessor := AckReturned\<rparr>, [SocketClose NORMAL None])
         else (s\<lparr>ackProcessor := AwaitingAck\<rparr>, []))
      else (s, []))"
| "makeACKProcessor s DeleteRejected =
     (if ackProcessor s = AwaitingDelete then (s\<lparr>ackProcessor := AckReturned\<rparr>, [])
      else (s, []))"
| "makeACKProcessor s AckStreamEnded =
     (if ackProcessor s = AwaitingAck then (s\<lparr>ackProcessor := AckReturned\<rparr>, [])
      else (s, []))"
| "makeACKProcessor s _ = (s, [])"

text \<open>
  The session interleaves the two tasks. A task that has returned takes no further event. The
  delivery stream is not stopped by a close of the socket here: what the transport does with a
  frame written to a closing socket is outside these sources.
\<close>

fun step :: "session \<Rightarrow> event \<Rightarrow> session \<times> action list" where
  "step s (ParcelKeyYielded k b u) =
     (if deliveryStream s = Iterating then makeDeliveryStream s (ParcelKeyYielded k b u)
      else (s, []))"
| "step s ParcelKeysEnded =
     (if deliveryStream s = Iterating then makeDeliveryStream s ParcelKeysEnded else (s, []))"
| "step s e = makeACKProcessor s e"

fun run :: "session \<Rightarrow> event list \<Rightarrow> session \<times> action list" where
  "run s [] = (s, [])"
| "run s (e # es) =
     (let (s', acts) = step s e; (s'', acts') = run s' es in (s'', acts @ acts'))"

section \<open>Parcel collection server: handshake and connection handler\<close>

text \<open>
  Modelled from the spec: certificates come from the core library, which is not among the
  sources; the spec gives each certificate a private address (of its subject) and an issuer
  private address.
\<close>

record Certificate =
  subjectPrivateAddress :: string
  issuerPrivateAddress :: string

text \<open>
  The two library calls the handshake makes are parameters: \<open>deserialize\<close> is
  \<^verbatim>\<open>HandshakeResponse.deserialize\<close> and returns the nonce signatures of the frame, \<open>verify\<close>
  is \<^verbatim>\<open>DETACHED_SIGNATURE_TYPES.NONCE.verify\<close> and returns the signer's certificate. Each
  returns \<open>None\<close> where the call throws.
\<close>

record handshake_library =
  deserialize :: "string \<Rightarrow> string list option"
  verify :: "string \<Rightarrow> string \<Rightarrow> Certificate list \<Rightarrow> Certificate option"

fun verifyNonceSignatures ::
  "(string \<Rightarrow> string \<Rightarrow> Certificate list \<Rightarrow> Certificate option) \<Rightarrow>
   string list \<Rightarrow> string \<Rightarrow> Certificate list \<Rightarrow> Certificate list option" where
  "verifyNonceSignatures vrf [] nonce ownCertificates = Some []"
| "verifyNonceSignatures vrf (nonceSignature # rest) nonce ownCertificates =
     (case vrf nonceSignature nonce ownCertificates of
        None \<Rightarrow> None
      | Some endpointCertificate \<Rightarrow>
          (case verifyNonceSignatures vrf rest nonce ownCertificates of
             None \<Rightarrow> None
           | Some endpointCertificates \<Rightarrow> Some (endpointCertificate # endpointCertificates)))"

definition malformedResponseReason :: string where
  "malformedResponseReason = ''Malformed handshake response''"

definition zeroSignaturesReason :: string where
  "zeroSignaturesReason = ''Handshake response does not include any signatures''"

definition invalidSignaturesReason :: string where
  "invalidSignaturesReason = ''Handshake response includes malformed/invalid signature(s)''"

text \<open>
  \<open>doHandshake\<close> writes the challenge, takes the one inbound frame \<open>message\<close> and resolves to
  the endpoint addresses, or to \<open>None\<close> (\<^verbatim>\<open>null\<close>) after closing the socket. The nonce is the
  random value \<^verbatim>\<open>uuid.bin()\<close> returned.
\<close>

definition doHandshake ::
  "handshake_library \<Rightarrow> string \<Rightarrow> Certificate list \<Rightarrow> string \<Rightarrow>
   string list option \<times> action list" where
  "doHandshake lib nonce ownCertificates message =
     (case deserialize lib message of
        None \<Rightarrow>
          (None, [ChallengeSent nonce, SocketClose CANNOT_ACCEPT (Some malformedResponseReason)])
      | Some nonceSignatures \<Rightarrow>
          if length nonceSignatures = 0
          then (None, [ChallengeSent nonce, SocketClose CANNOT_ACCEPT (Some zeroSignaturesReason)])
          else
            (case verifyNonceSignatures (verify lib) nonceSignatures nonce ownCertificates of
               None \<Rightarrow>
                 (None,
                  [ChallengeSent nonce, SocketClose CANNOT_ACCEPT (Some invalidSignaturesReason)])
             | Some endpointCertificates \<Rightarrow>
                 (Some (map subjectPrivateAddress endpointCertificates), [ChallengeSent nonce])))"

text \<open>
  The connection handler of \<open>makeParcelCollectionServer\<close>. \<open>storeSubscription\<close> holds the
  arguments of \<^verbatim>\<open>parcelStore.streamActiveBoundForEndpoints\<close> when that call is made;
  \<open>requestHeaders\<close> maps a header name to its value.
\<close>

record connection =
  storeSubscription :: "(string list \<times> bool) option"
  socketTrace :: "action list"

definition makeParcelCollectionServer ::
  "handshake_library \<Rightarrow> string \<Rightarrow> Certificate list \<Rightarrow> (string \<rightharpoonup> string) \<Rightarrow>
   string \<Rightarrow> event list \<Rightarrow> connection" where
  "makeParcelCollectionServer lib nonce ownCertificates requestHeaders message events =
     (case doHandshake lib nonce ownCertificates message of
        (None, acts) \<Rightarrow> \<lparr>storeSubscription = None, socketTrace = acts\<rparr>
      | (Some endpointAddresses, acts) \<Rightarrow>
          (let keepAlive =
                 (requestHeaders ''x-relaynet-streaming-mode'' \<noteq> Some ''close-upon-completion'')
           in \<lparr>storeSubscription = Some (endpointAddresses, keepAlive),
               socketTrace = acts @ snd (run newSession events)\<rparr>))"

section \<open>Courier sync subprocess\<close>

text \<open>
  Modelled from the spec: the exit codes and the courier port are declared in the package index,
  which is not among the sources; the spec gives 0, 1 and 2 and the port 21473.
\<close>

datatype CourierSyncExitCode = OK | UNREGISTERED_GATEWAY | FAILED_SYNC

fun exitCodeNumber :: "CourierSyncExitCode \<Rightarrow> nat" where
  "exitCodeNumber OK = 0"
| "exitCodeNumber UNREGISTERED_GATEWAY = 1"
| "exitCodeNumber FAILED_SYNC = 2"

definition COURIER_PORT :: string where
  "COURIER_PORT = ''21473''"

datatype CourierSyncStage = COLLECTION | WAIT | DELIVERY

definition DELAY_BETWEEN_COLLECTION_AND_DELIVERY_SECONDS :: nat where
  "DELAY_BETWEEN_COLLECTION_AND_DELIVERY_SECONDS = 5"

record PublicGateway =
  publicAddress :: string
  identityCertificate :: Certificate

text \<open>
  The settlement of an awaited promise: the value it resolves to, or a rejection (the awaited
  call throws).
\<close>

datatype 'a promise = Resolved 'a | Rejected

record UnboundKeyPair =
  privateKey :: string
  certificate :: Certificate

text \<open>
  What one run meets, in the order the run asks for it: the settlement of
  \<^verbatim>\<open>getPublicGateway()\<close> (\<open>None\<close> for \<^verbatim>\<open>null\<close>), of \<^verbatim>\<open>getDefaultGateway()\<close> and of
  \<^verbatim>\<open>getCurrentKey()\<close> (\<open>None\<close> for \<^verbatim>\<open>null\<close>), whether \<^verbatim>\<open>CogRPCClient.init\<close> throws, and
  whether an error of the courier, the stores or the cryptography escapes \<open>collectCargo\<close> or
  \<open>deliverCargo\<close> when it runs (errors on a single cargo or message are caught inside them).
  The awaits of \<^verbatim>\<open>getPublicGateway()\<close> and \<^verbatim>\<open>getCurrentKey()\<close> stand outside every
  \<^verbatim>\<open>try\<close>: when one of them rejects, so does the run, and there is no exit code.
\<close>

record sync_environment =
  getPublicGateway :: "PublicGateway option promise"
  getDefaultGateway :: "string promise"
  getCurrentKey :: "UnboundKeyPair option promise"
  clientInitThrows :: bool
  collectCargoThrows :: bool
  deliverCargoThrows :: bool

datatype sync_effect =
    LogFatal string
  | LogInfo string
  | ClientOpened string
  | ClientClosed
  | StageNotification CourierSyncStage
  | Sleep nat

record sync_run =
  exitCode :: "CourierSyncExitCode promise"
  effects :: "sync_effect list"

text \<open>
  Each phase notifies the parent of its stage first; the flag says whether an error escaped the
  phase afterwards. The collect phase reads \<^verbatim>\<open>currentKey.privateKey\<close> while it builds the
  authorization, which throws when the current key is \<^verbatim>\<open>null\<close>. What the phases do with
  cargoes, parcels and acknowledgements has no part in the exit code and is left out.
\<close>

definition collectCargo ::
  "sync_environment \<Rightarrow> UnboundKeyPair option \<Rightarrow> sync_effect list \<times> bool" where
  "collectCargo env currentKey =
     ([StageNotification COLLECTION], currentKey = None \<or> collectCargoThrows env)"

definition deliverCargo :: "sync_environment \<Rightarrow> sync_effect list \<times> bool" where
  "deliverCargo env = ([StageNotification DELIVERY], deliverCargoThrows env)"

definition runCourierSync :: "sync_environment \<Rightarrow> sync_run" where
  "runCourierSync env =
     (case getPublicGateway env of
        Rejected \<Rightarrow> \<lparr>exitCode = Rejected, effects = []\<rparr>
      | Resolved None \<Rightarrow>
          \<lparr>exitCode = Resolved UNREGISTERED_GATEWAY,
           effects = [LogFatal ''Private gateway is unregistered'']\<rparr>
      | Resolved (Some publicGateway) \<Rightarrow>
          (case getDefaultGateway env of
             Rejected \<Rightarrow>
               \<lparr>exitCode = Resolved FAILED_SYNC,
                effects = [LogFatal ''System default gateway could not be found'']\<rparr>
           | Resolved defaultGatewayIPAddress \<Rightarrow>
               (case getCurrentKey env of
                  Rejected \<Rightarrow> \<lparr>exitCode = Rejected, effects = []\<rparr>
                | Resolved currentKey \<Rightarrow>
                    (let url = ''https://'' @ defaultGatewayIPAddress @ '':'' @ COURIER_PORT
                     in if clientInitThrows env
                        then \<lparr>exitCode = Resolved FAILED_SYNC,
                              effects = [LogFatal ''Sync failed'']\<rparr>
                        else
                          (let (collected, collectThrew) = collectCargo env currentKey
                           in if collectThrew
                              then \<lparr>exitCode = Resolved FAILED_SYNC,
                                    effects = [ClientOpened url] @ collected @
                                              [LogFatal ''Sync failed'', ClientClosed]\<rparr>
                              else
                                (let waited =
                                       [StageNotification WAIT,
                                        Sleep DELAY_BETWEEN_COLLECTION_AND_DELIVERY_SECONDS];
                                     (delivered, deliverThrew) = deliverCargo env
                                 in if deliverThrew
                                    then \<lparr>exitCode = Resolved FAILED_SYNC,
                                          effects = [ClientOpened url] @ collected @ waited @
                                                    delivered @
                                                    [LogFatal ''Sync failed'', ClientClosed]\<rparr>
                                    else \<lparr>exitCode = Resolved OK,
                                          effects = [ClientOpened url] @ collected @ waited @
                                                    delivered @
                                                    [ClientClosed,
                                                     LogInfo
                                                       ''Sync completed successfully'']\<rparr>))))))"

section \<open>Courier sync subprocess: the cargo collection authorization\<close>

text \<open>A \<^verbatim>\<open>Date\<close> is a number of milliseconds since the epoch.\<close>

type_synonym Date = int

text \<open>
  The time zone of the host, as the language's dates see it: \<open>utcOffset t\<close> is what local time
  is ahead of UTC at the instant \<open>t\<close>, \<open>localOffset l\<close> is the offset by which the local time
  value \<open>l\<close> is turned back into an instant. Both are in milliseconds.
\<close>

record TimeZone =
  utcOffset :: "Date \<Rightarrow> int"
  localOffset :: "int \<Rightarrow> int"

text \<open>
  The date helpers come from the date library, which is not among the sources; they are
  written here as the library computes them. \<open>subMinutes\<close> moves a date back by minutes of
  60000 ms. \<open>addDays\<close> sets the day of the month of the local date, so the result is the
  instant with the same local time of day that many calendar days later: this is 86400000 ms
  for each day, less what the offset of the zone has grown by in between.
  \<open>differenceInSeconds\<close> is the number of full seconds between two dates, rounded towards
  zero.
\<close>

definition subMinutes :: "Date \<Rightarrow> int \<Rightarrow> Date" where
  "subMinutes date amount = date - amount * 60000"

definition addDays :: "TimeZone \<Rightarrow> Date \<Rightarrow> int \<Rightarrow> Date" where
  "addDays zone date amount =
     (let localTime = date + utcOffset zone date;
          newLocalTime = localTime + amount * 86400000
      in newLocalTime - localOffset zone newLocalTime)"

definition differenceInSeconds :: "Date \<Rightarrow> Date \<Rightarrow> int" where
  "differenceInSeconds dateLeft dateRight =
     (let diff = dateLeft - dateRight
      in if 0 \<le> diff then diff div 1000 else - ((- diff) div 1000))"

definition CLOCK_DRIFT_TOLERANCE_MINUTES :: int where
  "CLOCK_DRIFT_TOLERANCE_MINUTES = 90"

definition OUTBOUND_CARGO_TTL_DAYS :: int where
  "OUTBOUND_CARGO_TTL_DAYS = 14"

text \<open>
  The authorization \<open>generateCCA\<close> produces: the recipient, the creation date and the TTL in
  seconds. Its payload, the encrypted request with the cargo delivery authorization, is left
  out.
\<close>

record CargoCollectionAuthorization =
  recipientAddress :: string
  creationDate :: Date
  ttl :: int

text \<open>
  The constructor of the messages of the core library, which is not among the sources, keeps
  the creation date it is given to the whole second (it sets the milliseconds to zero) and the
  TTL as it is; the expiry date of a message is its creation date plus its TTL.
\<close>

definition newCargoCollectionAuthorization ::
  "string \<Rightarrow> Date \<Rightarrow> int \<Rightarrow> CargoCollectionAuthorization" where
  "newCargoCollectionAuthorization recipient creation seconds =
     \<lparr>recipientAddress = recipient,
      creationDate = creation - creation mod 1000,
      ttl = seconds\<rparr>"

definition expiryDate :: "CargoCollectionAuthorization \<Rightarrow> Date" where
  "expiryDate cca = creationDate cca + ttl cca * 1000"

text \<open>\<open>now\<close> is the clock reading \<^verbatim>\<open>new Date()\<close> takes, \<open>zone\<close> the time zone of the host.\<close>

definition generateCCA ::
  "TimeZone \<Rightarrow> Date \<Rightarrow> PublicGateway \<Rightarrow> CargoCollectionAuthorization" where
  "generateCCA zone now publicGateway =
     (let startDate = subMinutes now CLOCK_DRIFT_TOLERANCE_MINUTES;
          endDate = addDays zone now OUTBOUND_CARGO_TTL_DAYS;
          recipientAddress = ''https://'' @ publicAddress publicGateway
      in newCargoCollectionAuthorization recipientAddress startDate
           (differenceInSeconds endDate startDate))"

section \<open>Courier sync subprocess: the cargo message stream\<close>

record ParcelCollection =
  senderEndpointPrivateAddress :: string
  recipientEndpointAddress :: string
  parcelId :: string
  parcelExpiryDate :: Date

datatype MessageDirection = TOWARDS_INTERNET | FROM_INTERNET_TO_ENDPOINT

text \<open>An item of \<^verbatim>\<open>parcelStore.listInternetBound()\<close>: the parcel key and the expiry date.\<close>

type_synonym ParcelWithExpiryDate = "string \<times> Date"

text \<open>
  The message of a stream item is the serialization of an acknowledgement built from a row, or
  the parcel blob read from the store.
\<close>

datatype message_bytes =
    SerializedAck string string string
  | SerializedParcel string

record CargoMessageWithExpiry =
  message :: message_bytes
  messageExpiryDate :: Date

fun internetBoundMessages ::
  "(string \<Rightarrow> MessageDirection \<Rightarrow> string option) \<Rightarrow> ParcelWithExpiryDate list \<Rightarrow>
   CargoMessageWithExpiry list" where
  "internetBoundMessages retrieve [] = []"
| "internetBoundMessages retrieve ((parcelKey, expiry) # rest) =
     (case retrieve parcelKey TOWARDS_INTERNET of
        Some parcelSerialized \<Rightarrow>
          \<lparr>message = SerializedParcel parcelSerialized, messageExpiryDate = expiry\<rparr> #
          internetBoundMessages retrieve rest
      | None \<Rightarrow> internetBoundMessages retrieve rest)"

definition pendingAckMessage :: "ParcelCollection \<Rightarrow> CargoMessageWithExpiry" where
  "pendingAckMessage pendingACK =
     \<lparr>message = SerializedAck (senderEndpointPrivateAddress pendingACK)
                   (recipientEndpointAddress pendingACK) (parcelId pendingACK),
      messageExpiryDate = parcelExpiryDate pendingACK\<rparr>"

text \<open>
  \<open>pendingACKs\<close> is what \<^verbatim>\<open>collectionRepo.find()\<close> returns when the stream starts,
  \<open>internetBound\<close> what \<^verbatim>\<open>parcelStore.listInternetBound()\<close> yields, \<open>retrieve\<close> the store's
  \<^verbatim>\<open>retrieve\<close> (\<open>None\<close> for \<^verbatim>\<open>null\<close>). The result lists the items in the order they are yielded.
\<close>

definition makeCargoMessageStream ::
  "ParcelCollection list \<Rightarrow> ParcelWithExpiryDate list \<Rightarrow>
   (string \<Rightarrow> MessageDirection \<Rightarrow> string option) \<Rightarrow> CargoMessageWithExpiry list" where
  "makeCargoMessageStream pendingACKs internetBound retrieve =
     map pendingAckMessage pendingACKs @ internetBoundMessages retrieve internetBound"

section \<open>Configuration and gateway registration\<close>

datatype ConfigKey =
    NODE_KEY_SERIAL_NUMBER
  | NODE_CCA_ISSUER_KEY_SERIAL_NUMBER
  | PUBLIC_GATEWAY_ADDRESS

text \<open>The configuration repository maps a key to the value of its item, if there is one.\<close>

definition Config_get :: "(ConfigKey \<rightharpoonup> string) \<Rightarrow> ConfigKey \<Rightarrow> string option" where
  "Config_get configRepository key = configRepository key"

definition Config_set ::
  "(ConfigKey \<rightharpoonup> string) \<Rightarrow> ConfigKey \<Rightarrow> string \<Rightarrow> (ConfigKey \<rightharpoonup> string)" where
  "Config_set configRepository key v = configRepository(key \<mapsto> v)"

text \<open>
  The state the registrar reads and writes: the configuration and the key store's current node
  key (certificate and private key). A call of the registrar to the outside is a
  \<open>registrar_call\<close>: making the PoWeb client for an address, and the two requests to the public
  gateway.
\<close>

record registrar_state =
  config :: "ConfigKey \<rightharpoonup> string"
  savedNodeKey :: "(Certificate \<times> string) option"

datatype registrar_call =
    MakeClient string
  | PreRegisterNode string
  | RegisterNode string string

record PrivateNodeRegistration =
  privateNodeCertificate :: Certificate
  publicGatewayIdentityCertificate :: Certificate

text \<open>The public gateway's answers; \<open>None\<close> is a network or cryptographic failure.\<close>

record public_gateway_service =
  preRegisterNode :: "string \<Rightarrow> string option"
  registerNode :: "string \<Rightarrow> string \<Rightarrow> PrivateNodeRegistration option"

datatype RegistrationError = RegistrationError

text \<open>
  Modelled from the spec: \<^verbatim>\<open>GatewayRegistrar.register\<close> is not among the sources (only its
  tests are). The spec's six steps: return if the configured \<^verbatim>\<open>public_gateway_address\<close> equals
  the address; resolve a PoWeb client for the address; pre-register with the node's public key
  and receive the authorization; build and sign the request; register and receive the
  registration; only then save the certificate with the private key and the address. A failure
  aborts with a \<open>RegistrationError\<close> and commits nothing. The result is the outcome, the state
  afterwards and the calls made, in order. \<open>makeClient\<close> gives the service behind an address;
  the node's key pair is \<open>(publicKey, privateKey)\<close>.
\<close>

definition register ::
  "(string \<Rightarrow> public_gateway_service) \<Rightarrow> string \<times> string \<Rightarrow> string \<Rightarrow> registrar_state \<Rightarrow>
   RegistrationError option \<times> registrar_state \<times> registrar_call list" where
  "register makeClient keyPair publicGatewayAddress st =
     (if Config_get (config st) PUBLIC_GATEWAY_ADDRESS = Some publicGatewayAddress
      then (None, st, [])
      else
        (let client = makeClient publicGatewayAddress;
             (publicKey, privateKey) = keyPair
         in case preRegisterNode client publicKey of
              None \<Rightarrow>
                (Some RegistrationError, st,
                 [MakeClient publicGatewayAddress, PreRegisterNode publicKey])
            | Some registrationAuthorization \<Rightarrow>
                (case registerNode client publicKey registrationAuthorization of
                   None \<Rightarrow>
                     (Some RegistrationError, st,
                      [MakeClient publicGatewayAddress, PreRegisterNode publicKey,
                       RegisterNode publicKey registrationAuthorization])
                 | Some registration \<Rightarrow>
                     (None,
                      st\<lparr>config :=
                            Config_set (config st) PUBLIC_GATEWAY_ADDRESS publicGatewayAddress,
                          savedNodeKey := Some (privateNodeCertificate registration, privateKey)\<rparr>,
                      [MakeClient publicGatewayAddress, PreRegisterNode publicKey,
                       RegisterNode publicKey registrationAuthorization]))))"

text \<open>Two calls in succession: the second starts from the state the first left.\<close>

definition registerTwice ::
  "(string \<Rightarrow> public_gateway_service) \<Rightarrow> string \<times> string \<Rightarrow> string \<Rightarrow> registrar_state \<Rightarrow>
   registrar_state \<times> registrar_call list \<times> registrar_call list" where
  "registerTwice makeClient keyPair publicGatewayAddress st =
     (let (outcome1, st1, calls1) = register makeClient keyPair publicGatewayAddress st;
          (outcome2, st2, calls2) = register makeClient keyPair publicGatewayAddress st1
      in (st2, calls1, calls2))"

section \<open>User interface: the status stream of a courier synchronization\<close>

datatype CourierSyncStatus = COLLECTING_CARGO | WAITING | DELIVERING_CARGO | COMPLETE

datatype CourierSyncError = CourierSyncError

text \<open>
  What the consumer of an asynchronous status sequence observes: the statuses yielded, in
  order, and how the iteration ends (\<open>None\<close> when it completes, an error when it rejects).
\<close>

record status_iteration =
  statuses :: "CourierSyncStatus list"
  thrown :: "CourierSyncError option"

text \<open>
  \<open>synchronizeWithCourierGenerator\<close> is the generator \<^verbatim>\<open>_synchronizeWithCourier\<close>. Its tests
  replace the stage source of the socket connection by a sequence of stage names; that sequence
  is \<open>stageSource\<close> here. The generator takes the token only and never opens or reads the
  source. The pauses between statuses are left out.
\<close>

definition synchronizeWithCourierGenerator :: "string list \<Rightarrow> string \<Rightarrow> status_iteration" where
  "synchronizeWithCourierGenerator stageSource token =
     (if token = [] then \<lparr>statuses = [], thrown = Some CourierSyncError\<rparr>
      else \<lparr>statuses = [COLLECTING_CARGO, WAITING, DELIVERING_CARGO, COMPLETE], thrown = None\<rparr>)"

text \<open>
  \<open>synchronizeWithCourier\<close> wraps the generator so that it can be aborted; the consumer of
  this model never aborts, so it observes what the generator yields and throws.
\<close>

definition synchronizeWithCourier :: "string list \<Rightarrow> string \<Rightarrow> status_iteration" where
  "synchronizeWithCourier stageSource token = synchronizeWithCourierGenerator stageSource token"

section \<open>Predicates used in the statements\<close>

text \<open>\<open>issues d e\<close>: the event makes the delivery stream send a parcel under the delivery ID \<open>d\<close>.\<close>

fun issues :: "string \<Rightarrow> event \<Rightarrow> bool" where
  "issues d (ParcelKeyYielded parcelKey (Some blob) uuid) = (uuid = d)"
| "issues d _ = False"

text \<open>The tracker's flag is set exactly when the delivery stream has run to its end.\<close>

definition sessionInvariant :: "session \<Rightarrow> bool" where
  "sessionInvariant s =
     (wereAllParcelsDelivered (tracker s) = (deliveryStream s = DeliveryReturned))"

section \<open>Example inputs\<close>

text \<open>
  A handshake library for the examples: the frame \<open>garbage\<close> does not parse, the frame
  \<open>no signatures\<close> parses to an empty list, any other frame holds two signatures, itself and
  \<open>endpoint-b\<close>; the signature \<open>forged\<close> fails verification and any other is by the endpoint
  whose address is the signature prefixed with \<open>0\<close>.
\<close>

definition exampleLibrary :: handshake_library where
  "exampleLibrary =
     \<lparr>deserialize = (\<lambda>frame.
        if frame = ''garbage'' then None
        else if frame = ''no signatures'' then Some []
        else Some [frame, ''endpoint-b'']),
      verify = (\<lambda>nonceSignature nonce trusted.
        if nonceSignature = ''forged'' then None
        else Some \<lparr>subjectPrivateAddress = ''0'' @ nonceSignature,
                   issuerPrivateAddress = ''0gateway''\<rparr>)\<rparr>"

text \<open>A public gateway that answers every request.\<close>

definition examplePublicGatewayService :: "string \<Rightarrow> public_gateway_service" where
  "examplePublicGatewayService publicGatewayAddress =
     \<lparr>preRegisterNode = (\<lambda>publicKey. Some (''authorization for '' @ publicKey)),
      registerNode = (\<lambda>publicKey registrationAuthorization.
        Some \<lparr>privateNodeCertificate =
                 \<lparr>subjectPrivateAddress = ''0'' @ publicKey,
                  issuerPrivateAddress = ''0'' @ publicGatewayAddress\<rparr>,
               publicGatewayIdentityCertificate =
                 \<lparr>subjectPrivateAddress = ''0'' @ publicGatewayAddress,
                  issuerPrivateAddress = ''0'' @ publicGatewayAddress\<rparr>\<rparr>)\<rparr>"

text \<open>A parcel store that holds two Internet-bound parcels.\<close>

definition exampleRetrieve :: "string \<Rightarrow> MessageDirection \<Rightarrow> string option" where
  "exampleRetrieve parcelKey direction =
     (if direction = TOWARDS_INTERNET \<and> parcelKey = ''key-1'' then Some ''parcel one''
      else if direction = TOWARDS_INTERNET \<and> parcelKey = ''key-3'' then Some ''parcel three''
      else None)"

text \<open>
  Two time zones: one with a fixed offset, and one that is four hours behind UTC until
  2026-11-01 06:00 UTC and five hours behind from then on (the end of daylight saving time on
  the east coast of North America); a local time that occurs twice is taken as the earlier
  instant.
\<close>

definition fixedZone :: "int \<Rightarrow> TimeZone" where
  "fixedZone offset = \<lparr>utcOffset = (\<lambda>t. offset), localOffset = (\<lambda>l. offset)\<rparr>"

definition easternZone :: TimeZone where
  "easternZone =
     \<lparr>utcOffset = (\<lambda>t. if t < 1793512800000 then - 14400000 else - 18000000),
      localOffset = (\<lambda>l. if l < 1793512800000 - 14400000 then - 14400000 else - 18000000)\<rparr>"

definition examplePublicGateway :: PublicGateway where
  "examplePublicGateway =
     \<lparr>publicAddress = ''braavos.relaycorp.cloud'',
      identityCertificate =
        \<lparr>subjectPrivateAddress = ''0abc'', issuerPrivateAddress = ''0abc''\<rparr>\<rparr>"

definition exampleKeyPair :: UnboundKeyPair where
  "exampleKeyPair =
     \<lparr>privateKey = ''private key'',
      certificate = \<lparr>subjectPrivateAddress = ''0def'', issuerPrivateAddress = ''0abc''\<rparr>\<rparr>"

section \<open>Properties of the collection tracker\<close>

lemma getProperty_delete:
  "d \<notin> set objectPrototypeProperties \<Longrightarrow> getProperty (AList.delete d xs) d = Undefined"
  by (simp add: getProperty_def AList.delete_conv')

lemma getProperty_unmapped:
  "d \<notin> set objectPrototypeProperties \<Longrightarrow> map_of xs d = None \<Longrightarrow> getProperty xs d = Undefined"
  by (simp add: getProperty_def)

lemma map_of_delete_same: "map_of (AList.delete d xs) d = None"
  by (simp add: AList.delete_conv')

lemma pop_removes:
  assumes "d \<notin> set objectPrototypeProperties" and "truthy (fst (popPendingParcelKey d t))"
  shows "map_of (pendingParcelKeyByDeliveryId (snd (popPendingParcelKey d t))) d = None"
    and "fst (popPendingParcelKey d (snd (popPendingParcelKey d t))) = Undefined"
  using assms
  by (auto simp: popPendingParcelKey_def Let_def getProperty_delete map_of_delete_same
      split: if_splits)

lemma pop_keeps_unmapped:
  "map_of (pendingParcelKeyByDeliveryId t) d = None \<Longrightarrow>
   map_of (pendingParcelKeyByDeliveryId (snd (popPendingParcelKey m t))) d = None"
  by (simp add: popPendingParcelKey_def Let_def AList.delete_conv')

lemma add_keeps_unmapped:
  "map_of (pendingParcelKeyByDeliveryId t) d = None \<Longrightarrow> u \<noteq> d \<Longrightarrow>
   map_of (pendingParcelKeyByDeliveryId (addPendingACK u k t)) d = None"
  by (simp add: addPendingACK_def AList.update_conv')

lemma pop_wereAll:
  "wereAllParcelsDelivered (snd (popPendingParcelKey d t)) = wereAllParcelsDelivered t"
  by (simp add: popPendingParcelKey_def Let_def)

lemma add_wereAll:
  "wereAllParcelsDelivered (addPendingACK u k t) = wereAllParcelsDelivered t"
  by (simp add: addPendingACK_def)

lemma pop_of_empty:
  "pendingParcelKeyByDeliveryId t = [] \<Longrightarrow>
   pendingParcelKeyByDeliveryId (snd (popPendingParcelKey d t)) = []"
  by (simp add: popPendingParcelKey_def Let_def)

section \<open>Properties of a collection session\<close>

subsection \<open>An acknowledged delivery ID stays unknown\<close>

lemma step_keeps_unmapped:
  assumes "map_of (pendingParcelKeyByDeliveryId (tracker s)) d = None" and "\<not> issues d e"
  shows "map_of (pendingParcelKeyByDeliveryId (tracker (fst (step s e)))) d = None"
proof (cases e)
  case (ParcelKeyYielded k b u)
  with assms show ?thesis
    by (cases b) (auto simp: add_keeps_unmapped)
next
  case ParcelKeysEnded
  with assms show ?thesis
    by (simp add: Let_def markAllParcelsDelivered_def)
next
  case (AckReceived m)
  with assms pop_keeps_unmapped[of "tracker s" d m] show ?thesis
    by (simp add: case_prod_beta Let_def)
qed (use assms in auto)

lemma run_keeps_unmapped:
  "map_of (pendingParcelKeyByDeliveryId (tracker s)) d = None \<Longrightarrow>
   \<forall>e \<in> set es. \<not> issues d e \<Longrightarrow>
   map_of (pendingParcelKeyByDeliveryId (tracker (fst (run s es)))) d = None"
proof (induction es arbitrary: s)
  case Nil
  then show ?case by simp
next
  case (Cons e es)
  have "map_of (pendingParcelKeyByDeliveryId (tracker (fst (step s e)))) d = None"
    using Cons.prems by (intro step_keeps_unmapped) auto
  then have
    "map_of (pendingParcelKeyByDeliveryId (tracker (fst (run (fst (step s e)) es)))) d = None"
    using Cons.prems by (intro Cons.IH) auto
  then show ?case by (simp add: case_prod_beta)
qed

lemma ack_of_unmapped:
  assumes "d \<notin> set objectPrototypeProperties"
    and "map_of (pendingParcelKeyByDeliveryId (tracker s)) d = None"
  shows "snd (step s (AckReceived d)) =
           (if ackProcessor s = AwaitingAck
            then [SocketClose CANNOT_ACCEPT (Some unknownDeliveryReason)] else [])"
    and "ackProcessor s = AwaitingAck \<Longrightarrow> ackProcessor (fst (step s (AckReceived d))) = AckReturned"
  using assms
  by (simp_all add: popPendingParcelKey_def Let_def getProperty_unmapped)

lemma ack_of_mapped:
  assumes "ackProcessor s = AwaitingAck" and "truthy (fst (popPendingParcelKey d (tracker s)))"
  shows "step s (AckReceived d) =
           (s\<lparr>tracker := snd (popPendingParcelKey d (tracker s)), ackProcessor := AwaitingDelete\<rparr>,
            [ParcelStoreDelete (fst (popPendingParcelKey d (tracker s)))])"
  using assms by (simp add: case_prod_beta)

subsection \<open>Nothing is deleted once the ACK processor has returned\<close>

lemma returned_step:
  assumes "ackProcessor s = AckReturned"
  shows "ackProcessor (fst (step s e)) = AckReturned \<and> ParcelStoreDelete v \<notin> set (snd (step s e))"
proof (cases e)
  case (ParcelKeyYielded k b u)
  with assms show ?thesis by (cases b) auto
next
  case ParcelKeysEnded
  with assms show ?thesis by (simp add: Let_def)
qed (use assms in auto)

lemma returned_run:
  "ackProcessor s = AckReturned \<Longrightarrow> ParcelStoreDelete v \<notin> set (snd (run s es))"
proof (induction es arbitrary: s)
  case Nil
  then show ?case by simp
next
  case (Cons e es)
  from Cons.prems have a: "ackProcessor (fst (step s e)) = AckReturned"
    and b: "ParcelStoreDelete v \<notin> set (snd (step s e))"
    using returned_step[of s e v] by simp_all
  from a have "ParcelStoreDelete v \<notin> set (snd (run (fst (step s e)) es))" by (rule Cons.IH)
  with b show ?case by (simp add: case_prod_beta)
qed

text \<open>
  An ACK that is neither a pending delivery ID nor the name of an inherited property is refused
  at once, and the session deletes nothing from then on.
\<close>

lemma unknown_ack_refused:
  assumes "m \<notin> set objectPrototypeProperties"
    and "map_of (pendingParcelKeyByDeliveryId (tracker s)) m = None"
    and "ackProcessor s = AwaitingAck"
  shows "snd (step s (AckReceived m)) = [SocketClose CANNOT_ACCEPT (Some unknownDeliveryReason)]"
    and "ParcelStoreDelete v \<notin> set (snd (run (fst (step s (AckReceived m))) es))"
proof -
  show "snd (step s (AckReceived m)) = [SocketClose CANNOT_ACCEPT (Some unknownDeliveryReason)]"
    using ack_of_unmapped(1)[OF assms(1,2)] assms(3) by simp
  have "ackProcessor (fst (step s (AckReceived m))) = AckReturned"
    using assms by (rule ack_of_unmapped(2))
  then show "ParcelStoreDelete v \<notin> set (snd (run (fst (step s (AckReceived m))) es))"
    by (rule returned_run)
qed

subsection \<open>The session invariant and completion\<close>

lemma closeCodeNumber_cases:
  "(closeCodeNumber c = 1000 \<longleftrightarrow> c = NORMAL) \<and> (closeCodeNumber c = 1008 \<longleftrightarrow> c = CANNOT_ACCEPT)"
  by (cases c) simp_all

lemma step_invariant: "sessionInvariant s \<Longrightarrow> sessionInvariant (fst (step s e))"
proof (cases e)
  case (ParcelKeyYielded k b u)
  then show "sessionInvariant s \<Longrightarrow> ?thesis"
    by (cases b) (auto simp: sessionInvariant_def add_wereAll)
next
  case ParcelKeysEnded
  then show "sessionInvariant s \<Longrightarrow> ?thesis"
    by (auto simp: sessionInvariant_def Let_def markAllParcelsDelivered_def)
next
  case (AckReceived m)
  then show "sessionInvariant s \<Longrightarrow> ?thesis"
    using pop_wereAll[of m "tracker s"]
    by (auto simp: sessionInvariant_def case_prod_beta Let_def)
qed (auto simp: sessionInvariant_def)

lemma run_invariant: "sessionInvariant s \<Longrightarrow> sessionInvariant (fst (run s es))"
proof (induction es arbitrary: s)
  case Nil
  then show ?case by simp
next
  case (Cons e es)
  from Cons.prems have "sessionInvariant (fst (step s e))" by (rule step_invariant)
  then have "sessionInvariant (fst (run (fst (step s e)) es))" by (rule Cons.IH)
  then show ?case by (simp add: case_prod_beta)
qed

lemma newSession_invariant: "sessionInvariant newSession"
  by (simp add: sessionInvariant_def newSession_def newCollectionTracker_def)

lemma complete_persists:
  assumes "deliveryStream s = DeliveryReturned" and "isCollectionComplete (tracker s)"
  shows "deliveryStream (fst (step s e)) = DeliveryReturned \<and>
         isCollectionComplete (tracker (fst (step s e)))"
proof (cases e)
  case (AckReceived m)
  with assms pop_of_empty[of "tracker s" m] pop_wereAll[of m "tracker s"] show ?thesis
    by (auto simp: isCollectionComplete_def case_prod_beta Let_def)
qed (use assms in \<open>auto simp: isCollectionComplete_def\<close>)

lemma awaiting_persists:
  assumes "ackProcessor s = AwaitingDelete" and "e \<noteq> DeleteResolved" and "e \<noteq> DeleteRejected"
  shows "ackProcessor (fst (step s e)) = AwaitingDelete"
proof (cases e)
  case (ParcelKeyYielded k b u)
  with assms show ?thesis by (cases b) auto
next
  case ParcelKeysEnded
  with assms show ?thesis by (simp add: Let_def)
qed (use assms in auto)

lemma observed_after_delete:
  "deliveryStream s = DeliveryReturned \<Longrightarrow> isCollectionComplete (tracker s) \<Longrightarrow>
   ackProcessor s = AwaitingDelete \<Longrightarrow>
   DeleteResolved \<notin> set es \<Longrightarrow> DeleteRejected \<notin> set es \<Longrightarrow>
   snd (step (fst (run s es)) DeleteResolved) = [SocketClose NORMAL None]"
proof (induction es arbitrary: s)
  case Nil
  then show ?case by simp
next
  case (Cons e es)
  have a: "deliveryStream (fst (step s e)) = DeliveryReturned"
    and b: "isCollectionComplete (tracker (fst (step s e)))"
    using complete_persists[OF Cons.prems(1,2)] by simp_all
  have c: "ackProcessor (fst (step s e)) = AwaitingDelete"
    using Cons.prems by (intro awaiting_persists) auto
  have "snd (step (fst (run (fst (step s e)) es)) DeleteResolved) = [SocketClose NORMAL None]"
    using a b c Cons.prems by (intro Cons.IH) auto
  then show ?case by (simp add: case_prod_beta)
qed

lemma normal_close_only_when_complete:
  "SocketClose NORMAL reason \<in> set (snd (step s e)) \<Longrightarrow>
   isCollectionComplete (tracker (fst (step s e)))"
proof (cases e)
  case (ParcelKeyYielded k b u)
  then show "SocketClose NORMAL reason \<in> set (snd (step s e)) \<Longrightarrow> ?thesis"
    by (cases b) (auto split: if_splits)
next
  case ParcelKeysEnded
  then show "SocketClose NORMAL reason \<in> set (snd (step s e)) \<Longrightarrow> ?thesis"
    by (auto simp: Let_def split: if_splits)
next
  case (AckReceived m)
  then show "SocketClose NORMAL reason \<in> set (snd (step s e)) \<Longrightarrow> ?thesis"
    by (auto simp: case_prod_beta Let_def split: if_splits)
next
  case DeleteResolved
  then show "SocketClose NORMAL reason \<in> set (snd (step s e)) \<Longrightarrow> ?thesis"
    by (auto split: if_splits)
qed (auto split: if_splits)

lemma becomes_complete:
  assumes "sessionInvariant s"
    and "\<not> isCollectionComplete (tracker s)"
    and "isCollectionComplete (tracker (fst (step s e)))"
  shows "(e = ParcelKeysEnded \<and> snd (step s e) = [SocketClose NORMAL None]) \<or>
         ((\<exists>d. e = AckReceived d) \<and> ackProcessor (fst (step s e)) = AwaitingDelete \<and>
          deliveryStream (fst (step s e)) = DeliveryReturned)"
proof (cases e)
  case (ParcelKeyYielded k b u)
  with assms show ?thesis
    by (cases b) (auto simp: isCollectionComplete_def addPendingACK_def sessionInvariant_def
        split: if_splits)
next
  case ParcelKeysEnded
  with assms show ?thesis
    by (auto simp: Let_def split: if_splits)
next
  case (AckReceived m)
  with assms show ?thesis
    by (auto simp: case_prod_beta Let_def isCollectionComplete_def sessionInvariant_def
          popPendingParcelKey_def
        split: if_splits)
qed (use assms in \<open>auto split: if_splits\<close>)

lemma waiting_step:
  assumes "deliveryStream s = DeliveryReturned" and "ackProcessor s = AwaitingDelete"
    and "e \<noteq> DeleteResolved" and "e \<noteq> DeleteRejected"
  shows "step s e = (s, [])"
  using assms by (cases e) auto

lemma waiting_run:
  "deliveryStream s = DeliveryReturned \<Longrightarrow> ackProcessor s = AwaitingDelete \<Longrightarrow>
   DeleteResolved \<notin> set es \<Longrightarrow> DeleteRejected \<notin> set es \<Longrightarrow> run s es = (s, [])"
proof (induction es)
  case Nil
  then show ?case by simp
next
  case (Cons e es)
  then have "step s e = (s, [])" by (intro waiting_step) auto
  moreover have "run s es = (s, [])" using Cons by simp
  ultimately show ?case by simp
qed

lemma finished_step:
  assumes "deliveryStream s = DeliveryReturned" and "ackProcessor s = AckReturned"
  shows "step s e = (s, [])"
  using assms by (cases e) auto

lemma finished_run:
  "deliveryStream s = DeliveryReturned \<Longrightarrow> ackProcessor s = AckReturned \<Longrightarrow>
   run s es = (s, [])"
proof (induction es)
  case Nil
  then show ?case by simp
next
  case (Cons e es)
  then have "step s e = (s, [])" by (intro finished_step)
  moreover have "run s es = (s, [])" using Cons by simp
  ultimately show ?case by simp
qed

lemma rejected_delete_is_silent:
  assumes "deliveryStream s = DeliveryReturned" and "ackProcessor s = AwaitingDelete"
    and "DeleteResolved \<notin> set es" and "DeleteRejected \<notin> set es"
  shows "snd (run (fst (run s es)) (DeleteRejected # es')) = []"
proof -
  have "run s es = (s, [])" using assms by (rule waiting_run)
  moreover have "step s DeleteRejected = (s\<lparr>ackProcessor := AckReturned\<rparr>, [])"
    using assms(2) by simp
  moreover have "run (s\<lparr>ackProcessor := AckReturned\<rparr>) es' = (s\<lparr>ackProcessor := AckReturned\<rparr>, [])"
    using assms(1) by (intro finished_run) simp_all
  ultimately show ?thesis by simp
qed

text \<open>
  Claim C3, amended. A session calls \<^verbatim>\<open>socket.close\<close> with the code 1000 (NORMAL) only at a moment
  when the tracker has \<open>wereAllParcelsDelivered\<close> set and no pending delivery ID. Conversely, in
  any session, when a step makes that conjunction true: if the step is the end of the delivery
  stream, the same step closes with NORMAL; otherwise the step is an ACK, and whatever events
  come before the store's delete awaited for that ACK settles, the ACK processor closes with
  NORMAL if the delete resolves, and the session does nothing more, so never closes with
  NORMAL, if the delete rejects.
\<close>

theorem normal_close_iff_collection_complete:
  "(SocketClose code reason \<in> set (snd (step (fst (run newSession es)) e)) \<and>
    closeCodeNumber code = 1000 \<longrightarrow>
      wereAllParcelsDelivered (tracker (fst (step (fst (run newSession es)) e))) \<and>
      pendingParcelKeyByDeliveryId (tracker (fst (step (fst (run newSession es)) e))) = []) \<and>
   (\<not> isCollectionComplete (tracker (fst (run newSession es))) \<and>
    isCollectionComplete (tracker (fst (step (fst (run newSession es)) e))) \<longrightarrow>
      (e = ParcelKeysEnded \<and>
       snd (step (fst (run newSession es)) e) = [SocketClose NORMAL None]) \<or>
      ((\<exists>d. e = AckReceived d) \<and>
       (\<forall>es' es''. DeleteResolved \<notin> set es' \<and> DeleteRejected \<notin> set es' \<longrightarrow>
          snd (step (fst (run (fst (step (fst (run newSession es)) e)) es')) DeleteResolved) =
            [SocketClose NORMAL None] \<and>
          snd (run (fst (run (fst (step (fst (run newSession es)) e)) es'))
                 (DeleteRejected # es'')) = []))) \<and>
   closeCodeNumber NORMAL = 1000"
proof -
  let ?s = "fst (run newSession es)"
  let ?s' = "fst (step ?s e)"
  have inv: "sessionInvariant ?s"
    using newSession_invariant by (rule run_invariant)
  have one: "SocketClose code reason \<in> set (snd (step ?s e)) \<and> closeCodeNumber code = 1000 \<longrightarrow>
      wereAllParcelsDelivered (tracker ?s') \<and> pendingParcelKeyByDeliveryId (tracker ?s') = []"
    using normal_close_only_when_complete[of reason ?s e] closeCodeNumber_cases[of code]
    by (auto simp: isCollectionComplete_def)
  have two: "(e = ParcelKeysEnded \<and> snd (step ?s e) = [SocketClose NORMAL None]) \<or>
      ((\<exists>d. e = AckReceived d) \<and>
       (\<forall>es' es''. DeleteResolved \<notin> set es' \<and> DeleteRejected \<notin> set es' \<longrightarrow>
          snd (step (fst (run ?s' es')) DeleteResolved) = [SocketClose NORMAL None] \<and>
          snd (run (fst (run ?s' es')) (DeleteRejected # es'')) = []))"
    if a: "\<not> isCollectionComplete (tracker ?s)" and b: "isCollectionComplete (tracker ?s')"
  proof -
    from becomes_complete[OF inv a b]
    consider "e = ParcelKeysEnded \<and> snd (step ?s e) = [SocketClose NORMAL None]"
      | "(\<exists>d. e = AckReceived d) \<and> ackProcessor ?s' = AwaitingDelete \<and>
         deliveryStream ?s' = DeliveryReturned"
      by blast
    then show ?thesis
    proof cases
      case 1
      then show ?thesis by blast
    next
      case 2
      then have w: "ackProcessor ?s' = AwaitingDelete" and r: "deliveryStream ?s' = DeliveryReturned"
        by simp_all
      have "snd (step (fst (run ?s' es')) DeleteResolved) = [SocketClose NORMAL None] \<and>
            snd (run (fst (run ?s' es')) (DeleteRejected # es'')) = []"
        if "DeleteResolved \<notin> set es' \<and> DeleteRejected \<notin> set es'" for es' es''
        using observed_after_delete[OF r b w, of es'] rejected_delete_is_silent[OF r w, of es' es'']
          that by blast
      with 2 show ?thesis by blast
    qed
  qed
  show ?thesis using one two by simp
qed

text \<open>
  Claim C3 as stated fails when the store rejects the delete of the last pending parcel: the ACK
  has emptied the tracker after the delivery stream ended, so the conjunction holds, but the
  ACK processor ends on the error and no close with NORMAL is ever called.
\<close>

theorem rejected_delete_counterexample:
  "run newSession
     [ParcelKeyYielded ''k1'' (Some ''parcel'') ''id-1'', ParcelKeysEnded,
      AckReceived ''id-1'', DeleteRejected] =
   (\<lparr>tracker = \<lparr>wereAllParcelsDelivered = True, pendingParcelKeyByDeliveryId = []\<rparr>,
     deliveryStream = DeliveryReturned, ackProcessor = AckReturned\<rparr>,
    [ParcelDeliverySent ''id-1'' ''parcel'', ParcelStoreDelete (Str ''k1'')])"
  by (simp add: newSession_def newCollectionTracker_def addPendingACK_def
      markAllParcelsDelivered_def isCollectionComplete_def popPendingParcelKey_def getProperty_def)

lemma drained_run:
  "run newSession [ParcelKeyYielded ''k1'' (Some ''parcel'') ''id-1'', ParcelKeysEnded] =
     (\<lparr>tracker = \<lparr>wereAllParcelsDelivered = True,
                   pendingParcelKeyByDeliveryId = [(''id-1'', ''k1'')]\<rparr>,
       deliveryStream = DeliveryReturned, ackProcessor = AwaitingAck\<rparr>,
      [ParcelDeliverySent ''id-1'' ''parcel''])"
  by (simp add: newSession_def newCollectionTracker_def addPendingACK_def
      markAllParcelsDelivered_def isCollectionComplete_def)

theorem normal_close_iff_collection_complete_witness:
  "\<not> isCollectionComplete (tracker (fst (run newSession
       [ParcelKeyYielded ''k1'' (Some ''parcel'') ''id-1'', ParcelKeysEnded]))) \<and>
   isCollectionComplete (tracker (fst (step (fst (run newSession
       [ParcelKeyYielded ''k1'' (Some ''parcel'') ''id-1'', ParcelKeysEnded]))
       (AckReceived ''id-1'')))) \<and>
   snd (step (fst (run (fst (step (fst (run newSession
       [ParcelKeyYielded ''k1'' (Some ''parcel'') ''id-1'', ParcelKeysEnded]))
       (AckReceived ''id-1''))) [ParcelKeyYielded ''k2'' None ''id-2''])) DeleteResolved) =
     [SocketClose NORMAL None] \<and>
   snd (run (fst (run (fst (step (fst (run newSession
       [ParcelKeyYielded ''k1'' (Some ''parcel'') ''id-1'', ParcelKeysEnded]))
       (AckReceived ''id-1''))) [ParcelKeyYielded ''k2'' None ''id-2'']))
       [DeleteRejected, AckReceived ''id-1'', ParcelKeysEnded]) = [] \<and>
   wereAllParcelsDelivered (tracker (fst (step (fst (run newSession
       [ParcelKeyYielded ''k1'' (Some ''parcel'') ''id-1'', ParcelKeysEnded, AckReceived ''id-1'']))
       DeleteResolved)))"
proof -
  let ?es = "[ParcelKeyYielded ''k1'' (Some ''parcel'') ''id-1'', ParcelKeysEnded]"
  let ?e = "AckReceived ''id-1''"
  let ?es' = "[ParcelKeyYielded ''k2'' None ''id-2'']"
  have before: "\<not> isCollectionComplete (tracker (fst (run newSession ?es)))"
    unfolding drained_run by (simp add: isCollectionComplete_def)
  have after: "isCollectionComplete (tracker (fst (step (fst (run newSession ?es)) ?e)))"
    unfolding drained_run
    by (simp add: isCollectionComplete_def popPendingParcelKey_def getProperty_def)
  have quiet: "DeleteResolved \<notin> set ?es' \<and> DeleteRejected \<notin> set ?es'" by simp
  have all: "\<forall>es' es''. DeleteResolved \<notin> set es' \<and> DeleteRejected \<notin> set es' \<longrightarrow>
          snd (step (fst (run (fst (step (fst (run newSession ?es)) ?e)) es')) DeleteResolved) =
            [SocketClose NORMAL None] \<and>
          snd (run (fst (run (fst (step (fst (run newSession ?es)) ?e)) es'))
                 (DeleteRejected # es'')) = []"
    using normal_close_iff_collection_complete[of NORMAL None ?es ?e] before after by blast
  have ack_side:
    "snd (step (fst (run (fst (step (fst (run newSession ?es)) ?e)) ?es')) DeleteResolved) =
       [SocketClose NORMAL None] \<and>
     snd (run (fst (run (fst (step (fst (run newSession ?es)) ?e)) ?es'))
            (DeleteRejected # [AckReceived ''id-1'', ParcelKeysEnded])) = []"
    using all quiet by blast
  have closes: "SocketClose NORMAL None \<in> set (snd (step (fst (run newSession
       [ParcelKeyYielded ''k1'' (Some ''parcel'') ''id-1'', ParcelKeysEnded, AckReceived ''id-1'']))
       DeleteResolved))"
    by (simp add: newSession_def newCollectionTracker_def addPendingACK_def
      markAllParcelsDelivered_def isCollectionComplete_def popPendingParcelKey_def getProperty_def)
  have forward: "wereAllParcelsDelivered (tracker (fst (step (fst (run newSession
       [ParcelKeyYielded ''k1'' (Some ''parcel'') ''id-1'', ParcelKeysEnded, AckReceived ''id-1'']))
       DeleteResolved)))"
    using normal_close_iff_collection_complete[of NORMAL None
       "[ParcelKeyYielded ''k1'' (Some ''parcel'') ''id-1'', ParcelKeysEnded, AckReceived ''id-1'']"
       DeleteResolved] closes by simp
  show ?thesis using before after ack_side forward by blast
qed

lemma second_ack_after_settlement:
  assumes "d \<notin> set objectPrototypeProperties" and "ackProcessor s = AwaitingDelete"
    and "map_of (pendingParcelKeyByDeliveryId (tracker s)) d = None"
  shows "snd (run s [DeleteResolved, AckReceived d]) =
           (if isCollectionComplete (tracker s)
            then [SocketClose NORMAL None]
            else [SocketClose CANNOT_ACCEPT (Some unknownDeliveryReason)])"
    and "snd (run s [DeleteRejected, AckReceived d]) = []"
  using assms
  by (simp_all add: popPendingParcelKey_def Let_def getProperty_unmapped)

text \<open>
  Claim C10, amended. Let \<open>d\<close> be a delivery ID that is not the name of an inherited property,
  and let \<open>popPendingParcelKey d\<close> return a truthy value (a non-empty parcel key) in a session
  whose ACK processor is reading ACKs. Then the pop removes the mapping of \<open>d\<close>, a second pop
  returns \<^verbatim>\<open>undefined\<close>, the ACK \<open>d\<close> makes the processor delete exactly that key, and after
  any events that do not issue \<open>d\<close> again a further ACK \<open>d\<close> deletes nothing: it closes the
  socket with the code 1008 (CANNOT_ACCEPT) if the processor is reading ACKs then, and is not
  processed otherwise. When the second ACK comes right after the delete of the first has
  settled: if the delete resolved and the collection was not complete, the second ACK closes
  the socket with 1008; if the delete resolved and the collection was complete, the session
  closed with 1000 and the second ACK is not processed; if the delete rejected, nothing is
  closed and the second ACK is not processed.
\<close>

theorem acknowledged_delivery_is_unknown_afterwards:
  assumes "d \<notin> set objectPrototypeProperties"
    and "ackProcessor s = AwaitingAck"
    and "truthy (fst (popPendingParcelKey d (tracker s)))"
    and "\<forall>e \<in> set es. \<not> issues d e"
  shows "map_of (pendingParcelKeyByDeliveryId (snd (popPendingParcelKey d (tracker s)))) d = None \<and>
         fst (popPendingParcelKey d (snd (popPendingParcelKey d (tracker s)))) = Undefined \<and>
         snd (step s (AckReceived d)) = [ParcelStoreDelete (fst (popPendingParcelKey d (tracker s)))] \<and>
         snd (step (fst (run (fst (step s (AckReceived d))) es)) (AckReceived d)) =
           (if ackProcessor (fst (run (fst (step s (AckReceived d))) es)) = AwaitingAck
            then [SocketClose CANNOT_ACCEPT (Some unknownDeliveryReason)] else []) \<and>
         snd (run (fst (step s (AckReceived d))) [DeleteResolved, AckReceived d]) =
           (if isCollectionComplete (tracker (fst (step s (AckReceived d))))
            then [SocketClose NORMAL None]
            else [SocketClose CANNOT_ACCEPT (Some unknownDeliveryReason)]) \<and>
         snd (run (fst (step s (AckReceived d))) [DeleteRejected, AckReceived d]) = [] \<and>
         closeCodeNumber CANNOT_ACCEPT = 1008 \<and> closeCodeNumber NORMAL = 1000"
proof -
  let ?t' = "snd (popPendingParcelKey d (tracker s))"
  let ?s1 = "fst (step s (AckReceived d))"
  have removed: "map_of (pendingParcelKeyByDeliveryId ?t') d = None"
    using assms(1,3) by (rule pop_removes(1))
  have again: "fst (popPendingParcelKey d ?t') = Undefined"
    using assms(1,3) by (rule pop_removes(2))
  have first: "step s (AckReceived d) =
      (s\<lparr>tracker := ?t', ackProcessor := AwaitingDelete\<rparr>,
       [ParcelStoreDelete (fst (popPendingParcelKey d (tracker s)))])"
    using assms(2,3) by (rule ack_of_mapped)
  have unmapped: "map_of (pendingParcelKeyByDeliveryId (tracker ?s1)) d = None"
    using removed first by simp
  then have "map_of (pendingParcelKeyByDeliveryId (tracker (fst (run ?s1 es)))) d = None"
    using assms(4) by (rule run_keeps_unmapped)
  then have later: "snd (step (fst (run ?s1 es)) (AckReceived d)) =
           (if ackProcessor (fst (run ?s1 es)) = AwaitingAck
            then [SocketClose CANNOT_ACCEPT (Some unknownDeliveryReason)] else [])"
    using assms(1) by (intro ack_of_unmapped(1))
  have waiting: "ackProcessor ?s1 = AwaitingDelete" using first by simp
  have resolved: "snd (run ?s1 [DeleteResolved, AckReceived d]) =
           (if isCollectionComplete (tracker ?s1)
            then [SocketClose NORMAL None]
            else [SocketClose CANNOT_ACCEPT (Some unknownDeliveryReason)])"
    using assms(1) waiting unmapped by (rule second_ack_after_settlement(1))
  have rejected: "snd (run ?s1 [DeleteRejected, AckReceived d]) = []"
    using assms(1) waiting unmapped by (rule second_ack_after_settlement(2))
  have codes: "closeCodeNumber CANNOT_ACCEPT = 1008 \<and> closeCodeNumber NORMAL = 1000" by simp
  have del: "snd (step s (AckReceived d)) =
      [ParcelStoreDelete (fst (popPendingParcelKey d (tracker s)))]"
    using first by simp
  show ?thesis using removed again del later resolved rejected codes by blast
qed

text \<open>
  Claim C10 as stated fails when the first ACK completes the collection: the session closes
  with NORMAL, the ACK processor returns, and the second ACK of the same delivery ID is never
  processed, so no close with CANNOT_ACCEPT follows.
\<close>

theorem second_ack_after_completion_counterexample:
  "snd (run newSession
         [ParcelKeyYielded ''k1'' (Some ''parcel'') ''id-1'', ParcelKeysEnded,
          AckReceived ''id-1'', DeleteResolved, AckReceived ''id-1'']) =
     [ParcelDeliverySent ''id-1'' ''parcel'', ParcelStoreDelete (Str ''k1''),
      SocketClose NORMAL None]"
  by (simp add: newSession_def newCollectionTracker_def addPendingACK_def
      markAllParcelsDelivered_def isCollectionComplete_def popPendingParcelKey_def getProperty_def)

theorem acknowledged_delivery_is_unknown_afterwards_witness:
  "''id-1'' \<notin> set objectPrototypeProperties \<and>
   truthy (fst (popPendingParcelKey ''id-1''
     \<lparr>wereAllParcelsDelivered = False,
      pendingParcelKeyByDeliveryId = [(''id-1'', ''k1''), (''id-2'', ''k2'')]\<rparr>)) \<and>
   \<not> issues ''id-1'' DeleteResolved \<and>
   snd (step
     \<lparr>tracker = \<lparr>wereAllParcelsDelivered = False,
                  pendingParcelKeyByDeliveryId = [(''id-1'', ''k1''), (''id-2'', ''k2'')]\<rparr>,
      deliveryStream = Iterating, ackProcessor = AwaitingAck\<rparr> (AckReceived ''id-1'')) =
     [ParcelStoreDelete (Str ''k1'')] \<and>
   snd (step (fst (run (fst (step
     \<lparr>tracker = \<lparr>wereAllParcelsDelivered = False,
                  pendingParcelKeyByDeliveryId = [(''id-1'', ''k1''), (''id-2'', ''k2'')]\<rparr>,
      deliveryStream = Iterating, ackProcessor = AwaitingAck\<rparr> (AckReceived ''id-1'')))
      [DeleteResolved])) (AckReceived ''id-1'')) =
     [SocketClose CANNOT_ACCEPT (Some unknownDeliveryReason)]"
proof -
  let ?s = "\<lparr>tracker = \<lparr>wereAllParcelsDelivered = False,
                  pendingParcelKeyByDeliveryId = [(''id-1'', ''k1''), (''id-2'', ''k2'')]\<rparr>,
      deliveryStream = Iterating, ackProcessor = AwaitingAck\<rparr>"
  have h1: "''id-1'' \<notin> set objectPrototypeProperties"
    by (simp add: objectPrototypeProperties_def)
  have h2: "ackProcessor ?s = AwaitingAck" by simp
  have pop: "popPendingParcelKey ''id-1''
      \<lparr>wereAllParcelsDelivered = False,
       pendingParcelKeyByDeliveryId = [(''id-1'', ''k1''), (''id-2'', ''k2'')]\<rparr> =
      (Str ''k1'', \<lparr>wereAllParcelsDelivered = False,
                    pendingParcelKeyByDeliveryId = [(''id-2'', ''k2'')]\<rparr>)"
    by (simp add: popPendingParcelKey_def getProperty_def)
  have h3: "truthy (fst (popPendingParcelKey ''id-1'' (tracker ?s)))"
    by (simp add: pop)
  have h4: "\<forall>e \<in> set [DeleteResolved]. \<not> issues ''id-1'' e" by simp
  have listening: "ackProcessor (fst (run (fst (step ?s (AckReceived ''id-1''))) [DeleteResolved])) =
      AwaitingAck"
    by (simp add: popPendingParcelKey_def getProperty_def isCollectionComplete_def)
  from acknowledged_delivery_is_unknown_afterwards[OF h1 h2 h3 h4] listening pop h1 h3
  show ?thesis by simp
qed

text \<open>
  Claim C2. An ACK whose delivery ID the session never issued must close the socket with
  CANNOT_ACCEPT before anything else and delete nothing. The session does not do so for an ACK
  that names a property every object inherits: in a new session the ACK \<open>constructor\<close> reads the
  inherited member from the tracker, which is truthy, so the ACK processor passes it to the
  store's delete and does not close the socket.
\<close>

theorem ack_naming_inherited_property_is_not_refused:
  "run newSession [AckReceived ''constructor''] =
     (\<lparr>tracker = newCollectionTracker, deliveryStream = Iterating, ackProcessor = AwaitingDelete\<rparr>,
      [ParcelStoreDelete (Inherited ''constructor'')])"
  by (simp add: newSession_def newCollectionTracker_def popPendingParcelKey_def getProperty_def
      objectPrototypeProperties_def)

section \<open>Properties of the handshake and the connection handler\<close>

lemma verifyNonceSignatures_None:
  "verifyNonceSignatures vrf sigs nonce own = None \<longleftrightarrow> (\<exists>sg \<in> set sigs. vrf sg nonce own = None)"
  by (induction sigs) (auto split: option.splits)

lemma verifyNonceSignatures_Some:
  "\<forall>sg \<in> set sigs. vrf sg nonce own \<noteq> None \<Longrightarrow>
   verifyNonceSignatures vrf sigs nonce own = Some (map (\<lambda>sg. the (vrf sg nonce own)) sigs)"
  by (induction sigs) (auto split: option.splits)

lemma doHandshake_malformed:
  "deserialize lib frame = None \<Longrightarrow>
   doHandshake lib nonce own frame =
     (None, [ChallengeSent nonce, SocketClose CANNOT_ACCEPT (Some malformedResponseReason)])"
  by (simp add: doHandshake_def)

lemma doHandshake_zero_signatures:
  "deserialize lib frame = Some [] \<Longrightarrow>
   doHandshake lib nonce own frame =
     (None, [ChallengeSent nonce, SocketClose CANNOT_ACCEPT (Some zeroSignaturesReason)])"
  by (simp add: doHandshake_def)

lemma doHandshake_invalid_signature:
  assumes "deserialize lib frame = Some sigs" and "sigs \<noteq> []"
    and "\<exists>sg \<in> set sigs. verify lib sg nonce own = None"
  shows "doHandshake lib nonce own frame =
     (None, [ChallengeSent nonce, SocketClose CANNOT_ACCEPT (Some invalidSignaturesReason)])"
proof -
  from assms(3) have "verifyNonceSignatures (verify lib) sigs nonce own = None"
    by (simp only: verifyNonceSignatures_None)
  with assms(1,2) show ?thesis by (simp add: doHandshake_def)
qed

lemma doHandshake_accepted:
  assumes "deserialize lib frame = Some sigs" and "sigs \<noteq> []"
    and "\<forall>sg \<in> set sigs. verify lib sg nonce own \<noteq> None"
  shows "doHandshake lib nonce own frame =
           (Some (map (\<lambda>sg. subjectPrivateAddress (the (verify lib sg nonce own))) sigs),
            [ChallengeSent nonce])"
proof -
  from assms(3) have "verifyNonceSignatures (verify lib) sigs nonce own =
      Some (map (\<lambda>sg. the (verify lib sg nonce own)) sigs)"
    by (rule verifyNonceSignatures_Some)
  with assms(1,2) show ?thesis by (simp add: doHandshake_def comp_def)
qed

lemma refused_connection:
  "doHandshake lib nonce own frame = (None, acts) \<Longrightarrow>
   makeParcelCollectionServer lib nonce own requestHeaders frame events =
     \<lparr>storeSubscription = None, socketTrace = acts\<rparr>"
  by (simp add: makeParcelCollectionServer_def)

text \<open>
  Claim C7. If the inbound handshake frame is malformed, holds no nonce signature, or holds a
  signature that fails verification against the gateway's own certificates, the handshake
  resolves to \<^verbatim>\<open>null\<close> and all the connection does is send the challenge and close the socket
  with the code 1008 (CANNOT_ACCEPT) and a reason in words: the store is not subscribed to and no parcel is
  sent, whatever events follow. Otherwise the handshake returns the private address of the
  certificate of each signature, in order.
\<close>

theorem doHandshake_outcome:
  "(deserialize lib frame = None \<longrightarrow>
      fst (doHandshake lib nonce own frame) = None \<and>
      makeParcelCollectionServer lib nonce own requestHeaders frame events =
        \<lparr>storeSubscription = None,
         socketTrace = [ChallengeSent nonce,
                        SocketClose CANNOT_ACCEPT (Some malformedResponseReason)]\<rparr>) \<and>
   (deserialize lib frame = Some [] \<longrightarrow>
      fst (doHandshake lib nonce own frame) = None \<and>
      makeParcelCollectionServer lib nonce own requestHeaders frame events =
        \<lparr>storeSubscription = None,
         socketTrace = [ChallengeSent nonce,
                        SocketClose CANNOT_ACCEPT (Some zeroSignaturesReason)]\<rparr>) \<and>
   (deserialize lib frame = Some sigs \<and> sigs \<noteq> [] \<and>
    (\<exists>sg \<in> set sigs. verify lib sg nonce own = None) \<longrightarrow>
      fst (doHandshake lib nonce own frame) = None \<and>
      makeParcelCollectionServer lib nonce own requestHeaders frame events =
        \<lparr>storeSubscription = None,
         socketTrace = [ChallengeSent nonce,
                        SocketClose CANNOT_ACCEPT (Some invalidSignaturesReason)]\<rparr>) \<and>
   (deserialize lib frame = Some sigs \<and> sigs \<noteq> [] \<and>
    (\<forall>sg \<in> set sigs. verify lib sg nonce own \<noteq> None) \<longrightarrow>
      fst (doHandshake lib nonce own frame) =
        Some (map (\<lambda>sg. subjectPrivateAddress (the (verify lib sg nonce own))) sigs)) \<and>
   closeCodeNumber CANNOT_ACCEPT = 1008"
proof (intro conjI impI)
  assume "deserialize lib frame = None"
  then have h: "doHandshake lib nonce own frame =
     (None, [ChallengeSent nonce, SocketClose CANNOT_ACCEPT (Some malformedResponseReason)])"
    by (rule doHandshake_malformed)
  then show "fst (doHandshake lib nonce own frame) = None" by simp
  from h show "makeParcelCollectionServer lib nonce own requestHeaders frame events =
        \<lparr>storeSubscription = None,
         socketTrace = [ChallengeSent nonce,
                        SocketClose CANNOT_ACCEPT (Some malformedResponseReason)]\<rparr>"
    by (rule refused_connection)
next
  assume "deserialize lib frame = Some []"
  then have h: "doHandshake lib nonce own frame =
     (None, [ChallengeSent nonce, SocketClose CANNOT_ACCEPT (Some zeroSignaturesReason)])"
    by (rule doHandshake_zero_signatures)
  then show "fst (doHandshake lib nonce own frame) = None" by simp
  from h show "makeParcelCollectionServer lib nonce own requestHeaders frame events =
        \<lparr>storeSubscription = None,
         socketTrace = [ChallengeSent nonce,
                        SocketClose CANNOT_ACCEPT (Some zeroSignaturesReason)]\<rparr>"
    by (rule refused_connection)
next
  assume a: "deserialize lib frame = Some sigs \<and> sigs \<noteq> [] \<and>
    (\<exists>sg \<in> set sigs. verify lib sg nonce own = None)"
  have h: "doHandshake lib nonce own frame =
     (None, [ChallengeSent nonce, SocketClose CANNOT_ACCEPT (Some invalidSignaturesReason)])"
    using a doHandshake_invalid_signature[of lib frame sigs nonce own] by blast
  then show "fst (doHandshake lib nonce own frame) = None" by simp
  from h show "makeParcelCollectionServer lib nonce own requestHeaders frame events =
        \<lparr>storeSubscription = None,
         socketTrace = [ChallengeSent nonce,
                        SocketClose CANNOT_ACCEPT (Some invalidSignaturesReason)]\<rparr>"
    by (rule refused_connection)
next
  assume a: "deserialize lib frame = Some sigs \<and> sigs \<noteq> [] \<and>
    (\<forall>sg \<in> set sigs. verify lib sg nonce own \<noteq> None)"
  have "doHandshake lib nonce own frame =
           (Some (map (\<lambda>sg. subjectPrivateAddress (the (verify lib sg nonce own))) sigs),
            [ChallengeSent nonce])"
    using a doHandshake_accepted[of lib frame sigs nonce own] by blast
  then show "fst (doHandshake lib nonce own frame) =
        Some (map (\<lambda>sg. subjectPrivateAddress (the (verify lib sg nonce own))) sigs)"
    by simp
next
  show "closeCodeNumber CANNOT_ACCEPT = 1008" by simp
qed

theorem doHandshake_outcome_witness:
  "socketTrace (makeParcelCollectionServer exampleLibrary ''nonce'' [] Map.empty
       ''garbage'' [ParcelKeyYielded ''k1'' (Some ''parcel'') ''id-1'']) =
     [ChallengeSent ''nonce'', SocketClose CANNOT_ACCEPT (Some malformedResponseReason)] \<and>
   socketTrace (makeParcelCollectionServer exampleLibrary ''nonce'' [] Map.empty ''no signatures''
       [ParcelKeyYielded ''k1'' (Some ''parcel'') ''id-1'']) =
     [ChallengeSent ''nonce'', SocketClose CANNOT_ACCEPT (Some zeroSignaturesReason)] \<and>
   socketTrace (makeParcelCollectionServer exampleLibrary ''nonce'' [] Map.empty ''forged''
       [ParcelKeyYielded ''k1'' (Some ''parcel'') ''id-1'']) =
     [ChallengeSent ''nonce'', SocketClose CANNOT_ACCEPT (Some invalidSignaturesReason)] \<and>
   fst (doHandshake exampleLibrary ''nonce'' [] ''endpoint-a'') =
     Some [''0endpoint-a'', ''0endpoint-b'']"
proof -
  have d1: "deserialize exampleLibrary ''garbage'' = None"
    by (simp add: exampleLibrary_def)
  have d2: "deserialize exampleLibrary ''no signatures'' = Some []"
    by (simp add: exampleLibrary_def)
  have d3: "deserialize exampleLibrary ''forged'' = Some [''forged'', ''endpoint-b''] \<and>
      [''forged'', ''endpoint-b''] \<noteq> [] \<and>
      (\<exists>sg \<in> set [''forged'', ''endpoint-b'']. verify exampleLibrary sg ''nonce'' [] = None)"
    by (simp add: exampleLibrary_def)
  have d4: "deserialize exampleLibrary ''endpoint-a'' = Some [''endpoint-a'', ''endpoint-b''] \<and>
      [''endpoint-a'', ''endpoint-b''] \<noteq> [] \<and>
      (\<forall>sg \<in> set [''endpoint-a'', ''endpoint-b'']. verify exampleLibrary sg ''nonce'' [] \<noteq> None)"
    by (simp add: exampleLibrary_def)
  have v: "map (\<lambda>sg. subjectPrivateAddress (the (verify exampleLibrary sg ''nonce'' [])))
             [''endpoint-a'', ''endpoint-b''] = [''0endpoint-a'', ''0endpoint-b'']"
    by (simp add: exampleLibrary_def)
  note t = doHandshake_outcome[where lib = exampleLibrary and nonce = "''nonce''" and own = "[]"
      and requestHeaders = Map.empty
      and events = "[ParcelKeyYielded ''k1'' (Some ''parcel'') ''id-1'']"]
  have "makeParcelCollectionServer exampleLibrary ''nonce'' [] Map.empty ''garbage''
       [ParcelKeyYielded ''k1'' (Some ''parcel'') ''id-1''] =
     \<lparr>storeSubscription = None,
      socketTrace = [ChallengeSent ''nonce'',
                     SocketClose CANNOT_ACCEPT (Some malformedResponseReason)]\<rparr>"
    using t[where frame = "''garbage''" and sigs = "[]"] d1 by blast
  then have r1: "socketTrace (makeParcelCollectionServer exampleLibrary ''nonce'' [] Map.empty
       ''garbage'' [ParcelKeyYielded ''k1'' (Some ''parcel'') ''id-1'']) =
     [ChallengeSent ''nonce'', SocketClose CANNOT_ACCEPT (Some malformedResponseReason)]"
    by simp
  have "makeParcelCollectionServer exampleLibrary ''nonce'' [] Map.empty ''no signatures''
       [ParcelKeyYielded ''k1'' (Some ''parcel'') ''id-1''] =
     \<lparr>storeSubscription = None,
      socketTrace = [ChallengeSent ''nonce'',
                     SocketClose CANNOT_ACCEPT (Some zeroSignaturesReason)]\<rparr>"
    using t[where frame = "''no signatures''" and sigs = "[]"] d2 by blast
  then have r2: "socketTrace (makeParcelCollectionServer exampleLibrary ''nonce'' [] Map.empty
       ''no signatures'' [ParcelKeyYielded ''k1'' (Some ''parcel'') ''id-1'']) =
     [ChallengeSent ''nonce'', SocketClose CANNOT_ACCEPT (Some zeroSignaturesReason)]"
    by simp
  have "makeParcelCollectionServer exampleLibrary ''nonce'' [] Map.empty ''forged''
       [ParcelKeyYielded ''k1'' (Some ''parcel'') ''id-1''] =
     \<lparr>storeSubscription = None,
      socketTrace = [ChallengeSent ''nonce'',
                     SocketClose CANNOT_ACCEPT (Some invalidSignaturesReason)]\<rparr>"
    using t[where frame = "''forged''" and sigs = "[''forged'', ''endpoint-b'']"] d3 by blast
  then have r3: "socketTrace (makeParcelCollectionServer exampleLibrary ''nonce'' [] Map.empty
       ''forged'' [ParcelKeyYielded ''k1'' (Some ''parcel'') ''id-1'']) =
     [ChallengeSent ''nonce'', SocketClose CANNOT_ACCEPT (Some invalidSignaturesReason)]"
    by simp
  have "fst (doHandshake exampleLibrary ''nonce'' [] ''endpoint-a'') =
     Some (map (\<lambda>sg. subjectPrivateAddress (the (verify exampleLibrary sg ''nonce'' [])))
             [''endpoint-a'', ''endpoint-b''])"
    using t[where frame = "''endpoint-a''" and sigs = "[''endpoint-a'', ''endpoint-b'']"] d4
    by blast
  then have r4: "fst (doHandshake exampleLibrary ''nonce'' [] ''endpoint-a'') =
     Some [''0endpoint-a'', ''0endpoint-b'']"
    by (simp only: v)
  show ?thesis using r1 r2 r3 r4 by blast
qed

text \<open>
  Claim C6. After a successful handshake the connection subscribes to the parcel store with the
  endpoint addresses and the flag \<open>keepAlive\<close>, which is false exactly when the request header
  \<^verbatim>\<open>x-relaynet-streaming-mode\<close> is the string \<^verbatim>\<open>close-upon-completion\<close>, and true when the
  header is absent or has any other value.
\<close>

theorem keepAlive_from_streaming_mode:
  assumes "fst (doHandshake lib nonce own frame) = Some endpointAddresses"
  shows "storeSubscription
           (makeParcelCollectionServer lib nonce own requestHeaders frame events) =
         Some (endpointAddresses,
               requestHeaders ''x-relaynet-streaming-mode'' \<noteq> Some ''close-upon-completion'')"
  using assms
  by (cases "doHandshake lib nonce own frame")
     (simp add: makeParcelCollectionServer_def Let_def)

lemma example_handshake:
  "fst (doHandshake exampleLibrary ''nonce'' [] ''endpoint-a'') =
     Some [''0endpoint-a'', ''0endpoint-b'']"
  by (simp add: doHandshake_def exampleLibrary_def)

theorem keepAlive_from_streaming_mode_witness:
  "storeSubscription (makeParcelCollectionServer exampleLibrary ''nonce'' []
      [''x-relaynet-streaming-mode'' \<mapsto> ''close-upon-completion''] ''endpoint-a'' []) =
     Some ([''0endpoint-a'', ''0endpoint-b''], False) \<and>
   storeSubscription (makeParcelCollectionServer exampleLibrary ''nonce'' []
      [''x-relaynet-streaming-mode'' \<mapsto> ''keep-alive''] ''endpoint-a'' []) =
     Some ([''0endpoint-a'', ''0endpoint-b''], True) \<and>
   storeSubscription (makeParcelCollectionServer exampleLibrary ''nonce'' []
      [''x-relaynet-streaming-mode'' \<mapsto> ''Close-Upon-Completion''] ''endpoint-a'' []) =
     Some ([''0endpoint-a'', ''0endpoint-b''], True) \<and>
   storeSubscription (makeParcelCollectionServer exampleLibrary ''nonce'' []
      Map.empty ''endpoint-a'' []) =
     Some ([''0endpoint-a'', ''0endpoint-b''], True)"
  using keepAlive_from_streaming_mode[OF example_handshake,
          where requestHeaders = "[''x-relaynet-streaming-mode'' \<mapsto> ''close-upon-completion'']"
            and events = "[]"]
        keepAlive_from_streaming_mode[OF example_handshake,
          where requestHeaders = "[''x-relaynet-streaming-mode'' \<mapsto> ''keep-alive'']"
            and events = "[]"]
        keepAlive_from_streaming_mode[OF example_handshake,
          where requestHeaders = "[''x-relaynet-streaming-mode'' \<mapsto> ''Close-Upon-Completion'']"
            and events = "[]"]
        keepAlive_from_streaming_mode[OF example_handshake,
          where requestHeaders = Map.empty and events = "[]"]
  by simp

section \<open>Properties of the courier sync subprocess\<close>

lemma exitCodeNumber_cases:
  "(exitCodeNumber c = 0 \<longleftrightarrow> c = OK) \<and> (exitCodeNumber c = 1 \<longleftrightarrow> c = UNREGISTERED_GATEWAY) \<and>
   (exitCodeNumber c = 2 \<longleftrightarrow> c = FAILED_SYNC)"
  by (cases c) simp_all

lemma runCourierSync_exit:
  "exitCode (runCourierSync env) =
     (case getPublicGateway env of
        Rejected \<Rightarrow> Rejected
      | Resolved None \<Rightarrow> Resolved UNREGISTERED_GATEWAY
      | Resolved (Some publicGateway) \<Rightarrow>
          (case getDefaultGateway env of
             Rejected \<Rightarrow> Resolved FAILED_SYNC
           | Resolved address \<Rightarrow>
               (case getCurrentKey env of
                  Rejected \<Rightarrow> Rejected
                | Resolved currentKey \<Rightarrow>
                    if clientInitThrows env \<or> currentKey = None \<or> collectCargoThrows env \<or>
                       deliverCargoThrows env
                    then Resolved FAILED_SYNC else Resolved OK)))"
  by (simp add: runCourierSync_def collectCargo_def deliverCargo_def Let_def
      split: option.splits promise.splits)

lemma runCourierSync_opened:
  "(\<exists>url. ClientOpened url \<in> set (effects (runCourierSync env))) \<longleftrightarrow>
     (\<exists>publicGateway address currentKey.
        getPublicGateway env = Resolved (Some publicGateway) \<and>
        getDefaultGateway env = Resolved address \<and>
        getCurrentKey env = Resolved currentKey \<and> \<not> clientInitThrows env)"
  by (auto simp: runCourierSync_def collectCargo_def deliverCargo_def Let_def
      split: option.splits promise.splits)

lemma runCourierSync_closed:
  "ClientClosed \<in> set (effects (runCourierSync env)) \<longleftrightarrow>
     (\<exists>publicGateway address currentKey.
        getPublicGateway env = Resolved (Some publicGateway) \<and>
        getDefaultGateway env = Resolved address \<and>
        getCurrentKey env = Resolved currentKey \<and> \<not> clientInitThrows env)"
  by (auto simp: runCourierSync_def collectCargo_def deliverCargo_def Let_def
      split: option.splits promise.splits)

text \<open>
  Claim C1, amended. \<open>runCourierSync\<close> returns 1 (UNREGISTERED_GATEWAY) exactly when the look-up
  of the public gateway resolves to none. It returns 2 (FAILED_SYNC) exactly when a public
  gateway is persisted and either the discovery of the default gateway fails, or the look-up of
  the current key resolves and then opening the CogRPC client fails or an error escapes the
  collect phase (as it does when there is no current key) or the deliver phase. It returns 0
  (OK) exactly when a public gateway is persisted, the default gateway is found, a current key
  is found, the client opens and no error escapes either phase. It returns no exit code, its
  promise being rejected, exactly when the look-up of the public gateway rejects, or that of
  the current key does after a gateway and the default gateway were found. A CogRPC client is
  opened exactly when the two look-ups resolve with a gateway, the default gateway is found and
  opening the client does not fail; the client is closed exactly in the runs that opened it.
\<close>

theorem runCourierSync_exit_code:
  "(exitCode (runCourierSync env) = Resolved UNREGISTERED_GATEWAY \<longleftrightarrow>
      getPublicGateway env = Resolved None) \<and>
   (exitCode (runCourierSync env) = Resolved FAILED_SYNC \<longleftrightarrow>
      (\<exists>publicGateway. getPublicGateway env = Resolved (Some publicGateway)) \<and>
      (getDefaultGateway env = Rejected \<or>
       (\<exists>currentKey. getCurrentKey env = Resolved currentKey \<and>
          (clientInitThrows env \<or> currentKey = None \<or> collectCargoThrows env \<or>
           deliverCargoThrows env)))) \<and>
   (exitCode (runCourierSync env) = Resolved OK \<longleftrightarrow>
      (\<exists>publicGateway address keyPair.
         getPublicGateway env = Resolved (Some publicGateway) \<and>
         getDefaultGateway env = Resolved address \<and>
         getCurrentKey env = Resolved (Some keyPair)) \<and>
      \<not> clientInitThrows env \<and> \<not> collectCargoThrows env \<and> \<not> deliverCargoThrows env) \<and>
   (exitCode (runCourierSync env) = Rejected \<longleftrightarrow>
      getPublicGateway env = Rejected \<or>
      ((\<exists>publicGateway address.
          getPublicGateway env = Resolved (Some publicGateway) \<and>
          getDefaultGateway env = Resolved address) \<and>
       getCurrentKey env = Rejected)) \<and>
   ((\<exists>url. ClientOpened url \<in> set (effects (runCourierSync env))) \<longleftrightarrow>
      (\<exists>publicGateway address currentKey.
         getPublicGateway env = Resolved (Some publicGateway) \<and>
         getDefaultGateway env = Resolved address \<and>
         getCurrentKey env = Resolved currentKey \<and> \<not> clientInitThrows env)) \<and>
   (ClientClosed \<in> set (effects (runCourierSync env)) \<longleftrightarrow>
      (\<exists>url. ClientOpened url \<in> set (effects (runCourierSync env)))) \<and>
   exitCodeNumber UNREGISTERED_GATEWAY = 1 \<and> exitCodeNumber FAILED_SYNC = 2 \<and>
   exitCodeNumber OK = 0"
proof -
  have codes: "(exitCode (runCourierSync env) = Resolved UNREGISTERED_GATEWAY \<longleftrightarrow>
      getPublicGateway env = Resolved None) \<and>
   (exitCode (runCourierSync env) = Resolved FAILED_SYNC \<longleftrightarrow>
      (\<exists>publicGateway. getPublicGateway env = Resolved (Some publicGateway)) \<and>
      (getDefaultGateway env = Rejected \<or>
       (\<exists>currentKey. getCurrentKey env = Resolved currentKey \<and>
          (clientInitThrows env \<or> currentKey = None \<or> collectCargoThrows env \<or>
           deliverCargoThrows env)))) \<and>
   (exitCode (runCourierSync env) = Resolved OK \<longleftrightarrow>
      (\<exists>publicGateway address keyPair.
         getPublicGateway env = Resolved (Some publicGateway) \<and>
         getDefaultGateway env = Resolved address \<and>
         getCurrentKey env = Resolved (Some keyPair)) \<and>
      \<not> clientInitThrows env \<and> \<not> collectCargoThrows env \<and> \<not> deliverCargoThrows env) \<and>
   (exitCode (runCourierSync env) = Rejected \<longleftrightarrow>
      getPublicGateway env = Rejected \<or>
      ((\<exists>publicGateway address.
          getPublicGateway env = Resolved (Some publicGateway) \<and>
          getDefaultGateway env = Resolved address) \<and>
       getCurrentKey env = Rejected))"
    unfolding runCourierSync_exit
    by (auto split: option.splits promise.splits)
  show ?thesis
    using codes runCourierSync_opened[of env] runCourierSync_closed[of env] by simp
qed

text \<open>
  Claim C1 as stated fails when \<^verbatim>\<open>CogRPCClient.init\<close> throws: a public gateway is persisted, the
  default gateway is found, and neither phase starts (no stage is notified), so no error is
  thrown during the collect or the deliver phase; yet the run returns FAILED_SYNC, not OK.
\<close>

theorem runCourierSync_client_init_counterexample:
  "runCourierSync
     \<lparr>getPublicGateway = Resolved (Some examplePublicGateway),
      getDefaultGateway = Resolved ''192.168.0.1'',
      getCurrentKey = Resolved (Some exampleKeyPair),
      clientInitThrows = True,
      collectCargoThrows = False,
      deliverCargoThrows = False\<rparr>
   = \<lparr>exitCode = Resolved FAILED_SYNC, effects = [LogFatal ''Sync failed'']\<rparr>"
  by (simp add: runCourierSync_def)

theorem runCourierSync_exit_code_witness:
  "exitCode (runCourierSync
     \<lparr>getPublicGateway = Resolved (Some examplePublicGateway),
      getDefaultGateway = Resolved ''192.168.0.1'',
      getCurrentKey = Resolved (Some exampleKeyPair),
      clientInitThrows = False,
      collectCargoThrows = False,
      deliverCargoThrows = True\<rparr>) = Resolved FAILED_SYNC \<and>
   ClientClosed \<in> set (effects (runCourierSync
     \<lparr>getPublicGateway = Resolved (Some examplePublicGateway),
      getDefaultGateway = Resolved ''192.168.0.1'',
      getCurrentKey = Resolved (Some exampleKeyPair),
      clientInitThrows = False,
      collectCargoThrows = False,
      deliverCargoThrows = True\<rparr>)) \<and>
   exitCode (runCourierSync
     \<lparr>getPublicGateway = Resolved (Some examplePublicGateway),
      getDefaultGateway = Resolved ''192.168.0.1'',
      getCurrentKey = Rejected,
      clientInitThrows = False,
      collectCargoThrows = False,
      deliverCargoThrows = False\<rparr>) = Rejected"
proof -
  let ?env = "\<lparr>getPublicGateway = Resolved (Some examplePublicGateway),
      getDefaultGateway = Resolved ''192.168.0.1'',
      getCurrentKey = Resolved (Some exampleKeyPair),
      clientInitThrows = False,
      collectCargoThrows = False,
      deliverCargoThrows = True\<rparr>"
  let ?env' = "\<lparr>getPublicGateway = Resolved (Some examplePublicGateway),
      getDefaultGateway = Resolved ''192.168.0.1'',
      getCurrentKey = Rejected,
      clientInitThrows = False,
      collectCargoThrows = False,
      deliverCargoThrows = False\<rparr>"
  have a: "exitCode (runCourierSync ?env) = Resolved FAILED_SYNC"
    using runCourierSync_exit_code[of ?env] by simp
  have "\<exists>url. ClientOpened url \<in> set (effects (runCourierSync ?env))"
    using runCourierSync_exit_code[of ?env] by simp
  then have b: "ClientClosed \<in> set (effects (runCourierSync ?env))"
    using runCourierSync_exit_code[of ?env] by blast
  have c: "exitCode (runCourierSync ?env') = Rejected"
    using runCourierSync_exit_code[of ?env'] by simp
  show ?thesis using a b c by blast
qed

lemma addDays_shift:
  "addDays zone date amount =
     date + amount * 86400000 -
     (localOffset zone (date + utcOffset zone date + amount * 86400000) - utcOffset zone date)"
  by (simp add: addDays_def Let_def)

lemma creation_whole_second:
  "creationDate (generateCCA zone now publicGateway) =
     (now - 5400000) - (now - 5400000) mod 1000"
  by (simp add: generateCCA_def newCargoCollectionAuthorization_def subMinutes_def
      CLOCK_DRIFT_TOLERANCE_MINUTES_def Let_def)

lemma ttl_general:
  "ttl (generateCCA zone now publicGateway) =
     differenceInSeconds
       (now + 1209600000 -
        (localOffset zone (now + utcOffset zone now + 1209600000) - utcOffset zone now))
       (now - 5400000)"
proof -
  have "addDays zone now 14 =
      now + 1209600000 -
      (localOffset zone (now + utcOffset zone now + 1209600000) - utcOffset zone now)"
    by (simp add: addDays_def Let_def)
  then show ?thesis
    by (simp only: generateCCA_def newCargoCollectionAuthorization_def subMinutes_def
        CLOCK_DRIFT_TOLERANCE_MINUTES_def OUTBOUND_CARGO_TTL_DAYS_def Let_def
        CargoCollectionAuthorization.simps) simp
qed

lemma ttl_same_offset:
  assumes "localOffset zone (now + utcOffset zone now + 1209600000) = utcOffset zone now"
  shows "ttl (generateCCA zone now publicGateway) = 1215000"
  unfolding ttl_general using assms by (simp add: differenceInSeconds_def)

text \<open>
  Claim C4, amended. The authorization \<open>generateCCA\<close> produces at the clock reading \<open>now\<close> has
  as creation date \<open>now\<close> less 90 minutes, rounded down to the whole second, and as TTL the full
  seconds from \<open>now\<close> less 90 minutes to the instant 14 calendar days after \<open>now\<close> in the time
  zone of the host, which is \<open>now\<close> plus 14 days of 24 hours less the growth of the zone's offset
  in between; it expires its TTL after its creation date. Whenever the zone's offset is the
  same at both ends, the TTL is 14 days and 90 minutes, so the expiry date is that much after
  the creation date, the creation date is at most one second before \<open>now\<close> less 90 minutes, the
  expiry date at most one second before \<open>now\<close> plus 14 days, and \<open>now\<close> lies between the two.
\<close>

theorem generateCCA_validity_window:
  "creationDate (generateCCA zone now publicGateway) =
     (now - 90 * 60 * 1000) - (now - 90 * 60 * 1000) mod 1000 \<and>
   ttl (generateCCA zone now publicGateway) =
     differenceInSeconds
       (now + 14 * 24 * 60 * 60 * 1000 -
        (localOffset zone (now + utcOffset zone now + 14 * 24 * 60 * 60 * 1000) -
         utcOffset zone now))
       (now - 90 * 60 * 1000) \<and>
   expiryDate (generateCCA zone now publicGateway) =
     creationDate (generateCCA zone now publicGateway) +
     ttl (generateCCA zone now publicGateway) * 1000 \<and>
   (localOffset zone (now + utcOffset zone now + 14 * 24 * 60 * 60 * 1000) = utcOffset zone now \<longrightarrow>
      ttl (generateCCA zone now publicGateway) = 14 * 24 * 60 * 60 + 90 * 60 \<and>
      expiryDate (generateCCA zone now publicGateway) -
        creationDate (generateCCA zone now publicGateway) =
        14 * 24 * 60 * 60 * 1000 + 90 * 60 * 1000 \<and>
      now - 90 * 60 * 1000 - 1000 < creationDate (generateCCA zone now publicGateway) \<and>
      creationDate (generateCCA zone now publicGateway) \<le> now - 90 * 60 * 1000 \<and>
      now + 14 * 24 * 60 * 60 * 1000 - 1000 < expiryDate (generateCCA zone now publicGateway) \<and>
      expiryDate (generateCCA zone now publicGateway) \<le> now + 14 * 24 * 60 * 60 * 1000 \<and>
      creationDate (generateCCA zone now publicGateway) \<le> now \<and>
      now \<le> expiryDate (generateCCA zone now publicGateway))"
proof -
  let ?cca = "generateCCA zone now publicGateway"
  have c: "creationDate ?cca = (now - 5400000) - (now - 5400000) mod 1000"
    by (rule creation_whole_second)
  have t: "ttl ?cca = differenceInSeconds
       (now + 1209600000 -
        (localOffset zone (now + utcOffset zone now + 1209600000) - utcOffset zone now))
       (now - 5400000)"
    by (rule ttl_general)
  have e: "expiryDate ?cca = creationDate ?cca + ttl ?cca * 1000"
    by (simp add: expiryDate_def)
  have lo: "0 \<le> (now - 5400000) mod 1000" and hi: "(now - 5400000) mod 1000 < 1000"
    by simp_all
  have same: "ttl ?cca = 1215000 \<and> expiryDate ?cca - creationDate ?cca = 1215000000 \<and>
      now - 5400000 - 1000 < creationDate ?cca \<and> creationDate ?cca \<le> now - 5400000 \<and>
      now + 1209600000 - 1000 < expiryDate ?cca \<and> expiryDate ?cca \<le> now + 1209600000 \<and>
      creationDate ?cca \<le> now \<and> now \<le> expiryDate ?cca"
    if "localOffset zone (now + utcOffset zone now + 1209600000) = utcOffset zone now"
  proof -
    have t': "ttl ?cca = 1215000" using that by (rule ttl_same_offset)
    show ?thesis using c e t' lo hi by linarith
  qed
  show ?thesis
  proof (intro conjI impI)
    show "creationDate ?cca = (now - 90 * 60 * 1000) - (now - 90 * 60 * 1000) mod 1000"
      using c by simp
    show "ttl ?cca = differenceInSeconds
       (now + 14 * 24 * 60 * 60 * 1000 -
        (localOffset zone (now + utcOffset zone now + 14 * 24 * 60 * 60 * 1000) -
         utcOffset zone now))
       (now - 90 * 60 * 1000)"
      using t by simp
    show "expiryDate ?cca = creationDate ?cca + ttl ?cca * 1000" by (rule e)
  next
    assume "localOffset zone (now + utcOffset zone now + 14 * 24 * 60 * 60 * 1000) =
      utcOffset zone now"
    then have "localOffset zone (now + utcOffset zone now + 1209600000) = utcOffset zone now"
      by simp
    note s = same[OF this]
    show "ttl ?cca = 14 * 24 * 60 * 60 + 90 * 60" using s by simp
    show "expiryDate ?cca - creationDate ?cca = 14 * 24 * 60 * 60 * 1000 + 90 * 60 * 1000"
      using s by simp
    show "now - 90 * 60 * 1000 - 1000 < creationDate ?cca" using s by simp
    show "creationDate ?cca \<le> now - 90 * 60 * 1000" using s by simp
    show "now + 14 * 24 * 60 * 60 * 1000 - 1000 < expiryDate ?cca" using s by simp
    show "expiryDate ?cca \<le> now + 14 * 24 * 60 * 60 * 1000" using s by simp
    show "creationDate ?cca \<le> now" using s by simp
    show "now \<le> expiryDate ?cca" using s by simp
  qed
qed

text \<open>
  Claim C4 as stated fails in two ways. With the clock at 123 ms past a second, in a zone of
  fixed offset, the creation date is the whole second before \<open>now\<close> less 90 minutes and the
  expiry date the whole second before \<open>now\<close> plus 14 days. With the clock at noon UTC on
  2026-10-25 in the eastern zone, whose daylight saving time ends within the next 14 days, the
  TTL is one hour longer than 14 days and 90 minutes.
\<close>

theorem generateCCA_whole_seconds_and_calendar_days_counterexample:
  "creationDate (generateCCA (fixedZone 0) 1793700000123 examplePublicGateway) = 1793694600000 \<and>
   1793700000123 - 90 * 60 * 1000 = (1793694600123 :: int) \<and>
   expiryDate (generateCCA (fixedZone 0) 1793700000123 examplePublicGateway) = 1794909600000 \<and>
   1793700000123 + 14 * 24 * 60 * 60 * 1000 = (1794909600123 :: int) \<and>
   ttl (generateCCA easternZone 1792929600123 examplePublicGateway) = 1218600 \<and>
   expiryDate (generateCCA easternZone 1792929600123 examplePublicGateway) -
     creationDate (generateCCA easternZone 1792929600123 examplePublicGateway) =
     14 * 24 * 60 * 60 * 1000 + 90 * 60 * 1000 + 60 * 60 * 1000"
  by (simp add: generateCCA_def newCargoCollectionAuthorization_def expiryDate_def subMinutes_def
      addDays_def differenceInSeconds_def CLOCK_DRIFT_TOLERANCE_MINUTES_def
      OUTBOUND_CARGO_TTL_DAYS_def fixedZone_def easternZone_def Let_def)

theorem generateCCA_validity_window_witness:
  "localOffset (fixedZone 3600000)
     (1793700000123 + utcOffset (fixedZone 3600000) 1793700000123 + 14 * 24 * 60 * 60 * 1000) =
     utcOffset (fixedZone 3600000) 1793700000123 \<and>
   creationDate (generateCCA (fixedZone 3600000) 1793700000123 examplePublicGateway) =
     1793694600000 \<and>
   ttl (generateCCA (fixedZone 3600000) 1793700000123 examplePublicGateway) = 1215000 \<and>
   expiryDate (generateCCA (fixedZone 3600000) 1793700000123 examplePublicGateway) =
     1794909600000"
proof -
  have h: "localOffset (fixedZone 3600000)
     (1793700000123 + utcOffset (fixedZone 3600000) 1793700000123 + 14 * 24 * 60 * 60 * 1000) =
     utcOffset (fixedZone 3600000) 1793700000123"
    by (simp add: fixedZone_def)
  from generateCCA_validity_window[of "fixedZone 3600000" 1793700000123 examplePublicGateway] h
  show ?thesis by simp
qed

lemma internetBoundMessages_filter:
  "internetBoundMessages retrieve internetBound =
     map (\<lambda>(parcelKey, expiry).
            \<lparr>message = SerializedParcel (the (retrieve parcelKey TOWARDS_INTERNET)),
             messageExpiryDate = expiry\<rparr>)
         (filter (\<lambda>(parcelKey, expiry). retrieve parcelKey TOWARDS_INTERNET \<noteq> None) internetBound)"
  by (induction retrieve internetBound rule: internetBoundMessages.induct)
     (auto split: option.splits)

text \<open>
  Claim C9. The cargo message stream first yields one acknowledgement for each row the
  collections table holds when the stream starts, in order, each with the expiry date of the
  row's parcel; after these it yields the Internet-bound parcels the store lists, in order, each
  with its expiry date, leaving out every parcel whose retrieval returns \<^verbatim>\<open>null\<close>.
\<close>

theorem makeCargoMessageStream_order:
  "take (length pendingACKs) (makeCargoMessageStream pendingACKs internetBound retrieve) =
     map (\<lambda>pendingACK.
            \<lparr>message = SerializedAck (senderEndpointPrivateAddress pendingACK)
                         (recipientEndpointAddress pendingACK) (parcelId pendingACK),
             messageExpiryDate = parcelExpiryDate pendingACK\<rparr>) pendingACKs \<and>
   drop (length pendingACKs) (makeCargoMessageStream pendingACKs internetBound retrieve) =
     map (\<lambda>(parcelKey, expiry).
            \<lparr>message = SerializedParcel (the (retrieve parcelKey TOWARDS_INTERNET)),
             messageExpiryDate = expiry\<rparr>)
         (filter (\<lambda>(parcelKey, expiry). retrieve parcelKey TOWARDS_INTERNET \<noteq> None) internetBound)"
  by (simp add: makeCargoMessageStream_def internetBoundMessages_filter pendingAckMessage_def
      cong: map_cong)

theorem makeCargoMessageStream_order_witness:
  "makeCargoMessageStream
     [\<lparr>senderEndpointPrivateAddress = ''0sender'', recipientEndpointAddress = ''https://ping.example'',
       parcelId = ''parcel-a'', parcelExpiryDate = 1700000000000\<rparr>]
     [(''key-1'', 1710000000000), (''key-2'', 1720000000000), (''key-3'', 1730000000000)]
     exampleRetrieve =
   [\<lparr>message = SerializedAck ''0sender'' ''https://ping.example'' ''parcel-a'',
     messageExpiryDate = 1700000000000\<rparr>,
    \<lparr>message = SerializedParcel ''parcel one'', messageExpiryDate = 1710000000000\<rparr>,
    \<lparr>message = SerializedParcel ''parcel three'', messageExpiryDate = 1730000000000\<rparr>]"
proof -
  let ?rows = "[\<lparr>senderEndpointPrivateAddress = ''0sender'',
       recipientEndpointAddress = ''https://ping.example'',
       parcelId = ''parcel-a'', parcelExpiryDate = 1700000000000\<rparr>]"
  let ?listing = "[(''key-1'', 1710000000000::int), (''key-2'', 1720000000000), (''key-3'', 1730000000000)]"
  let ?stream = "makeCargoMessageStream ?rows ?listing exampleRetrieve"
  have "?stream = take (length ?rows) ?stream @ drop (length ?rows) ?stream"
    by (simp only: append_take_drop_id)
  also have "\<dots> =
     map (\<lambda>pendingACK.
            \<lparr>message = SerializedAck (senderEndpointPrivateAddress pendingACK)
                         (recipientEndpointAddress pendingACK) (parcelId pendingACK),
             messageExpiryDate = parcelExpiryDate pendingACK\<rparr>) ?rows @
     map (\<lambda>(parcelKey, expiry).
            \<lparr>message = SerializedParcel (the (exampleRetrieve parcelKey TOWARDS_INTERNET)),
             messageExpiryDate = expiry\<rparr>)
         (filter (\<lambda>(parcelKey, expiry). exampleRetrieve parcelKey TOWARDS_INTERNET \<noteq> None) ?listing)"
    using makeCargoMessageStream_order[of ?rows ?listing exampleRetrieve] by simp
  also have "\<dots> =
   [\<lparr>message = SerializedAck ''0sender'' ''https://ping.example'' ''parcel-a'',
     messageExpiryDate = 1700000000000\<rparr>,
    \<lparr>message = SerializedParcel ''parcel one'', messageExpiryDate = 1710000000000\<rparr>,
    \<lparr>message = SerializedParcel ''parcel three'', messageExpiryDate = 1730000000000\<rparr>]"
    by (simp add: exampleRetrieve_def)
  finally show ?thesis .
qed

section \<open>Properties of the gateway registration\<close>

lemma register_already:
  "Config_get (config st) PUBLIC_GATEWAY_ADDRESS = Some address \<Longrightarrow>
   register makeClient keyPair address st = (None, st, [])"
  by (simp add: register_def)

lemma register_success_configured:
  assumes "fst (register makeClient keyPair address st) = None"
  shows "Config_get (config (fst (snd (register makeClient keyPair address st))))
           PUBLIC_GATEWAY_ADDRESS = Some address"
proof (cases "Config_get (config st) PUBLIC_GATEWAY_ADDRESS = Some address")
  case True
  then show ?thesis by (simp add: register_def)
next
  case False
  with assms show ?thesis
    by (auto simp: register_def Config_get_def Config_set_def case_prod_beta Let_def
        split: option.splits)
qed

lemma register_success_calls:
  assumes "Config_get (config st) PUBLIC_GATEWAY_ADDRESS \<noteq> Some address"
    and "fst (register makeClient keyPair address st) = None"
  shows "snd (snd (register makeClient keyPair address st)) =
           [MakeClient address, PreRegisterNode (fst keyPair),
            RegisterNode (fst keyPair) (the (preRegisterNode (makeClient address) (fst keyPair)))]"
  using assms
  by (auto simp: register_def case_prod_beta Let_def split: option.splits)

text \<open>
  Claim C5. If the configured \<^verbatim>\<open>public_gateway_address\<close> already equals the address,
  \<open>register\<close> returns with the state unchanged and without any call: no PoWeb client is made
  and nothing is sent. A successful \<open>register\<close> leaves the registrar in such a state, so a second
  \<open>register\<close> of the same address makes no call; two calls in succession from a state not yet
  registered with the address, the first succeeding, make one pre-registration and one
  registration request in all.
\<close>

theorem register_idempotent:
  "(Config_get (config st) PUBLIC_GATEWAY_ADDRESS = Some address \<longrightarrow>
      register makeClient keyPair address st = (None, st, [])) \<and>
   (fst (register makeClient keyPair address st) = None \<longrightarrow>
      register makeClient' keyPair' address (fst (snd (register makeClient keyPair address st))) =
        (None, fst (snd (register makeClient keyPair address st)), [])) \<and>
   (Config_get (config st) PUBLIC_GATEWAY_ADDRESS \<noteq> Some address \<and>
    fst (register makeClient keyPair address st) = None \<longrightarrow>
      snd (registerTwice makeClient keyPair address st) =
        ([MakeClient address, PreRegisterNode (fst keyPair),
          RegisterNode (fst keyPair) (the (preRegisterNode (makeClient address) (fst keyPair)))],
         []))"
proof (intro conjI impI)
  assume "Config_get (config st) PUBLIC_GATEWAY_ADDRESS = Some address"
  then show "register makeClient keyPair address st = (None, st, [])"
    by (rule register_already)
next
  assume "fst (register makeClient keyPair address st) = None"
  then have "Config_get (config (fst (snd (register makeClient keyPair address st))))
           PUBLIC_GATEWAY_ADDRESS = Some address"
    by (rule register_success_configured)
  then show "register makeClient' keyPair' address
               (fst (snd (register makeClient keyPair address st))) =
        (None, fst (snd (register makeClient keyPair address st)), [])"
    by (rule register_already)
next
  assume a: "Config_get (config st) PUBLIC_GATEWAY_ADDRESS \<noteq> Some address \<and>
    fst (register makeClient keyPair address st) = None"
  then have second: "register makeClient keyPair address
                       (fst (snd (register makeClient keyPair address st))) =
        (None, fst (snd (register makeClient keyPair address st)), [])"
    by (intro register_already register_success_configured) simp
  have first: "snd (snd (register makeClient keyPair address st)) =
           [MakeClient address, PreRegisterNode (fst keyPair),
            RegisterNode (fst keyPair) (the (preRegisterNode (makeClient address) (fst keyPair)))]"
    using a by (intro register_success_calls) simp_all
  show "snd (registerTwice makeClient keyPair address st) =
        ([MakeClient address, PreRegisterNode (fst keyPair),
          RegisterNode (fst keyPair) (the (preRegisterNode (makeClient address) (fst keyPair)))],
         [])"
    using first second by (simp add: registerTwice_def case_prod_beta)
qed

theorem register_idempotent_witness:
  "register examplePublicGatewayService (''public key'', ''private key'')
      ''braavos.relaycorp.cloud''
      \<lparr>config = [PUBLIC_GATEWAY_ADDRESS \<mapsto> ''braavos.relaycorp.cloud''], savedNodeKey = None\<rparr> =
     (None,
      \<lparr>config = [PUBLIC_GATEWAY_ADDRESS \<mapsto> ''braavos.relaycorp.cloud''], savedNodeKey = None\<rparr>,
      []) \<and>
   snd (registerTwice examplePublicGatewayService (''public key'', ''private key'')
      ''braavos.relaycorp.cloud'' \<lparr>config = Map.empty, savedNodeKey = None\<rparr>) =
     ([MakeClient ''braavos.relaycorp.cloud'', PreRegisterNode ''public key'',
       RegisterNode ''public key'' ''authorization for public key''],
      [])"
proof -
  have already: "Config_get
      (config \<lparr>config = [PUBLIC_GATEWAY_ADDRESS \<mapsto> ''braavos.relaycorp.cloud''],
               savedNodeKey = None\<rparr>) PUBLIC_GATEWAY_ADDRESS = Some ''braavos.relaycorp.cloud''"
    by (simp add: Config_get_def)
  have fresh: "Config_get (config \<lparr>config = Map.empty, savedNodeKey = None\<rparr>)
      PUBLIC_GATEWAY_ADDRESS \<noteq> Some ''braavos.relaycorp.cloud''"
    by (simp add: Config_get_def)
  have succeeds: "fst (register examplePublicGatewayService (''public key'', ''private key'')
      ''braavos.relaycorp.cloud'' \<lparr>config = Map.empty, savedNodeKey = None\<rparr>) = None"
    by (simp add: register_def Config_get_def examplePublicGatewayService_def)
  have one: "register examplePublicGatewayService (''public key'', ''private key'')
      ''braavos.relaycorp.cloud''
      \<lparr>config = [PUBLIC_GATEWAY_ADDRESS \<mapsto> ''braavos.relaycorp.cloud''], savedNodeKey = None\<rparr> =
     (None,
      \<lparr>config = [PUBLIC_GATEWAY_ADDRESS \<mapsto> ''braavos.relaycorp.cloud''], savedNodeKey = None\<rparr>,
      [])"
    using register_idempotent[where makeClient = examplePublicGatewayService
        and keyPair = "(''public key'', ''private key'')" and address = "''braavos.relaycorp.cloud''"
        and st = "\<lparr>config = [PUBLIC_GATEWAY_ADDRESS \<mapsto> ''braavos.relaycorp.cloud''],
                   savedNodeKey = None\<rparr>"] already
    by blast
  have "snd (registerTwice examplePublicGatewayService (''public key'', ''private key'')
      ''braavos.relaycorp.cloud'' \<lparr>config = Map.empty, savedNodeKey = None\<rparr>) =
     ([MakeClient ''braavos.relaycorp.cloud'', PreRegisterNode (fst (''public key'', ''private key'')),
       RegisterNode (fst (''public key'', ''private key''))
         (the (preRegisterNode (examplePublicGatewayService ''braavos.relaycorp.cloud'')
            (fst (''public key'', ''private key''))))],
      [])"
    using register_idempotent[where makeClient = examplePublicGatewayService
        and keyPair = "(''public key'', ''private key'')" and address = "''braavos.relaycorp.cloud''"
        and st = "\<lparr>config = Map.empty, savedNodeKey = None\<rparr>"] fresh succeeds
    by blast
  then have two: "snd (registerTwice examplePublicGatewayService (''public key'', ''private key'')
      ''braavos.relaycorp.cloud'' \<lparr>config = Map.empty, savedNodeKey = None\<rparr>) =
     ([MakeClient ''braavos.relaycorp.cloud'', PreRegisterNode ''public key'',
       RegisterNode ''public key'' ''authorization for public key''],
      [])"
    by (simp add: examplePublicGatewayService_def)
  show ?thesis using one two by blast
qed

section \<open>Properties of the status stream of the user interface\<close>

text \<open>
  Claim C8. When the stage source yields an unknown stage, the consumer of
  \<open>synchronizeWithCourier\<close> should observe a \<open>CourierSyncError\<close> and no further status. The
  generator never reads the source: with the token \<open>TOKEN\<close> and a source that yields
  \<open>UNKNOWN\<close> the consumer receives all four statuses and no error.
\<close>

theorem synchronizeWithCourier_ignores_unknown_stage:
  "synchronizeWithCourier [''UNKNOWN''] ''TOKEN'' =
     \<lparr>statuses = [COLLECTING_CARGO, WAITING, DELIVERING_CARGO, COMPLETE], thrown = None\<rparr>"
  by (simp add: synchronizeWithCourier_def synchronizeWithCourierGenerator_def)

text \<open>The same holds for every source and every token that is not empty.\<close>

lemma synchronizeWithCourier_any_source:
  "token \<noteq> [] \<Longrightarrow> synchronizeWithCourier stageSource token =
     \<lparr>statuses = [COLLECTING_CARGO, WAITING, DELIVERING_CARGO, COMPLETE], thrown = None\<rparr>"
  by (simp add: synchronizeWithCourier_def synchronizeWithCourierGenerator_def)

end
